theory Spec2Isabelle
  imports Complex_Main "HOL-Library.Sublist"
begin

section \<open>Strings as the service uses them\<close>

text \<open>
  Strings are character lists. \<open>toUpperCase\<close> is JavaScript's
  \<open>String.prototype.toUpperCase\<close> on ASCII text: the letters a..z are mapped to A..Z, every
  other character is kept. \<open>str_includes s sub\<close> is \<open>s.includes(sub)\<close>: \<open>sub\<close> occurs
  in \<open>s\<close> as a contiguous run of characters.
\<close>

definition toUpperChar :: "char \<Rightarrow> char" where
  "toUpperChar c =
     (let n = (of_char c :: nat) in if 97 \<le> n \<and> n \<le> 122 then char_of (n - 32) else c)"

definition toUpperCase :: "string \<Rightarrow> string" where
  "toUpperCase s = map toUpperChar s"

fun str_includes :: "string \<Rightarrow> string \<Rightarrow> bool" where
  "str_includes [] sub = (sub = [])"
| "str_includes (c # cs) sub = (prefix sub (c # cs) \<or> str_includes cs sub)"

fun startsWith :: "string \<Rightarrow> string \<Rightarrow> bool" where
  "startsWith s p = prefix p s"

section \<open>Health score (calculateHealthScore)\<close>

text \<open>
  The Open Food Facts payload: the response fields \<open>code\<close>, \<open>status\<close>, \<open>result.id\<close> and
  the nested \<open>product\<close> object. Of the product object the model keeps the fields the
  service's scoring and mapping read: \<open>product_name\<close>, \<open>brands\<close>, \<open>nutriscore_grade\<close>
  (optional string), \<open>nova_group\<close> (optional number) and \<open>labels_tags\<close> (optional list of
  strings). An optional field that is missing is \<open>None\<close>.
\<close>

record ProductFields =
  product_name :: "string option"
  brands :: "string option"
  nutriscore_grade :: "string option"
  nova_group :: "int option"
  labels_tags :: "string list option"

record OpenFoodFactsProduct =
  code :: string
  api_status :: string
  product :: ProductFields
  result_id :: "string option"

text \<open>
  The two \<open>switch\<close> statements. A JavaScript \<open>if (x)\<close> on an optional string is taken
  when the string is present and not empty, on an optional number when it is present and not
  zero. A \<open>switch\<close> without a matching \<open>case\<close> leaves the score as it is.
\<close>

definition nutriscore_switch :: "string \<Rightarrow> int \<Rightarrow> int" where
  "nutriscore_switch g score =
     (let u = toUpperCase g in
      if u = ''A'' then score + 30
      else if u = ''B'' then score + 20
      else if u = ''C'' then score + 10
      else if u = ''D'' then score - 10
      else if u = ''E'' then score - 20
      else score)"

definition nova_switch :: "int \<Rightarrow> int \<Rightarrow> int" where
  "nova_switch n score =
     (if n = 1 then score + 20
      else if n = 2 then score + 10
      else if n = 3 then score - 10
      else if n = 4 then score - 20
      else score)"

definition calculateHealthScore :: "OpenFoodFactsProduct \<Rightarrow> int" where
  "calculateHealthScore p =
     (let score = 50;
          score = (case nutriscore_grade (product p) of
                     None \<Rightarrow> score
                   | Some g \<Rightarrow> if g \<noteq> [] then nutriscore_switch g score else score);
          score = (case nova_group (product p) of
                     None \<Rightarrow> score
                   | Some n \<Rightarrow> if n \<noteq> 0 then nova_switch n score else score);
          labels = (case labels_tags (product p) of None \<Rightarrow> [] | Some ls \<Rightarrow> ls);
          score = (if list_ex (\<lambda>label. str_includes label ''organic'' \<or> str_includes label ''bio'') labels
                   then score + 10 else score)
      in max 0 (min 100 score))"

subsection \<open>The scoring rule as the specification words it\<close>

text \<open>
  The rule of the specification: start at 50; add the points of the letter nutrition grade
  if there is one; add the points of the processing level (1 to 4) if there is one; add 10
  for an organic label; clamp to 0..100. The rule is stated over grades and levels, not over
  the payload's strings and numbers.
\<close>

datatype nutrition_grade = GradeA | GradeB | GradeC | GradeD | GradeE

datatype processing_level = Level1 | Level2 | Level3 | Level4

fun grade_points :: "nutrition_grade \<Rightarrow> int" where
  "grade_points GradeA = 30"
| "grade_points GradeB = 20"
| "grade_points GradeC = 10"
| "grade_points GradeD = - 10"
| "grade_points GradeE = - 20"

fun level_points :: "processing_level \<Rightarrow> int" where
  "level_points Level1 = 20"
| "level_points Level2 = 10"
| "level_points Level3 = - 10"
| "level_points Level4 = - 20"

definition clamp :: "int \<Rightarrow> int \<Rightarrow> int \<Rightarrow> int" where
  "clamp lo hi x = (if x < lo then lo else if hi < x then hi else x)"

definition health_score_rule :: "nutrition_grade option \<Rightarrow> processing_level option \<Rightarrow> bool \<Rightarrow> int" where
  "health_score_rule grade level organic =
     clamp 0 100
       (50 + (case grade of None \<Rightarrow> 0 | Some g \<Rightarrow> grade_points g)
           + (case level of None \<Rightarrow> 0 | Some l \<Rightarrow> level_points l)
           + (if organic then 10 else 0))"

text \<open>
  How a payload carries a grade, a level and an organic label. The letter grade is the
  field's text read without regard to case (Open Food Facts sends lower-case letters); a
  text that is none of the five letters carries no grade. The level is the number 1, 2, 3
  or 4; any other number carries no level.
\<close>

definition grade_of_text :: "string \<Rightarrow> nutrition_grade option" where
  "grade_of_text g =
     (if g = ''A'' \<or> g = ''a'' then Some GradeA
      else if g = ''B'' \<or> g = ''b'' then Some GradeB
      else if g = ''C'' \<or> g = ''c'' then Some GradeC
      else if g = ''D'' \<or> g = ''d'' then Some GradeD
      else if g = ''E'' \<or> g = ''e'' then Some GradeE
      else None)"

definition level_of_number :: "int \<Rightarrow> processing_level option" where
  "level_of_number n =
     (if n = 1 then Some Level1
      else if n = 2 then Some Level2
      else if n = 3 then Some Level3
      else if n = 4 then Some Level4
      else None)"

definition letter_grade :: "OpenFoodFactsProduct \<Rightarrow> nutrition_grade option" where
  "letter_grade p = (case nutriscore_grade (product p) of None \<Rightarrow> None | Some g \<Rightarrow> grade_of_text g)"

definition processing_grade :: "OpenFoodFactsProduct \<Rightarrow> processing_level option" where
  "processing_grade p = (case nova_group (product p) of None \<Rightarrow> None | Some n \<Rightarrow> level_of_number n)"

definition has_organic_label :: "OpenFoodFactsProduct \<Rightarrow> bool" where
  "has_organic_label p =
     (case labels_tags (product p) of
        None \<Rightarrow> False
      | Some ls \<Rightarrow> \<exists>l \<in> set ls. sublist ''organic'' l \<or> sublist ''bio'' l)"


section \<open>Errors\<close>

text \<open>
  The service's error classes. A thrown error is its class and its message; the class
  \<open>OtherError\<close> stands for a thrown value that is not a \<open>ProductServiceError\<close> (a
  \<open>TypeError\<close>, a \<open>SyntaxError\<close>, ...).
\<close>

datatype ErrorKind =
    ProductServiceError | ProductNotFoundError | NetworkError | RateLimitError
  | DatabaseError | CacheError | ValidationError | AuthenticationError
  | StorageError | QueueError | OtherError

datatype Thrown = Throw ErrorKind string

fun kind :: "Thrown \<Rightarrow> ErrorKind" where
  "kind (Throw k m) = k"

fun message :: "Thrown \<Rightarrow> string" where
  "message (Throw k m) = m"

section \<open>Storage adapter (Storage)\<close>

text \<open>
  The adapter sits on one of three backing stores, chosen by what the platform offers:
  the browser's \<open>localStorage\<close>, React Native's \<open>AsyncStorage\<close>, or the in-memory map. A
  backing store is a list of key/value entries with one entry per key, in the store's key
  order. Values are the stored strings; \<open>length\<close> is the string's \<open>.length\<close>.
\<close>

datatype Backend = LocalStorage | AsyncStorage | MemoryStorage

record Storage =
  backend :: Backend
  entries :: "(string \<times> string) list"

definition STORAGE_PREFIX :: string where
  "STORAGE_PREFIX = ''scani_''"

definition STORAGE_SIZE_LIMIT :: nat where
  "STORAGE_SIZE_LIMIT = 10 * 1024 * 1024"

text \<open>
  \<open>getItem\<close>: the stored value or \<open>None\<close> for \<open>null\<close>. The in-memory store returns
  \<open>storage.get(key) || null\<close>, so an empty string reads as \<open>null\<close> there.
\<close>

definition getItem :: "Storage \<Rightarrow> string \<Rightarrow> string option" where
  "getItem st key =
     (case map_of (entries st) key of
        None \<Rightarrow> None
      | Some v \<Rightarrow> if backend st = MemoryStorage \<and> v = [] then None else Some v)"

text \<open>The backing store's own write: the key's entry is replaced, or a new entry is added.\<close>

fun put :: "string \<Rightarrow> string \<Rightarrow> (string \<times> string) list \<Rightarrow> (string \<times> string) list" where
  "put k v [] = [(k, v)]"
| "put k v (e # es) = (if fst e = k then (k, v) # es else e # put k v es)"

definition store_setItem :: "string \<Rightarrow> string \<Rightarrow> Storage \<Rightarrow> Storage" where
  "store_setItem key val st = st\<lparr>entries := put key val (entries st)\<rparr>"

definition removeItem :: "string \<Rightarrow> Storage \<Rightarrow> Storage" where
  "removeItem key st = st\<lparr>entries := filter (\<lambda>e. fst e \<noteq> key) (entries st)\<rparr>"

text \<open>
  \<open>getAllKeys\<close>: on \<open>localStorage\<close> and \<open>AsyncStorage\<close> the keys that start with the
  adapter's prefix; the in-memory store returns all its keys.
\<close>

definition getAllKeys :: "Storage \<Rightarrow> string list" where
  "getAllKeys st =
     (if backend st = MemoryStorage then map fst (entries st)
      else filter (\<lambda>key. startsWith key STORAGE_PREFIX) (map fst (entries st)))"

fun multiRemove :: "string list \<Rightarrow> Storage \<Rightarrow> Storage" where
  "multiRemove [] st = st"
| "multiRemove (key # keys) st = multiRemove keys (removeItem key st)"

text \<open>
  \<open>getSize\<close>: the loop adds \<open>key.length + value.length\<close> for every key of \<open>getAllKeys\<close>
  whose value is truthy (present and not empty).
\<close>

definition item_size :: "Storage \<Rightarrow> string \<Rightarrow> nat" where
  "item_size st key =
     (case getItem st key of
        None \<Rightarrow> 0
      | Some v \<Rightarrow> if v \<noteq> [] then length key + length v else 0)"

definition getSize :: "Storage \<Rightarrow> nat" where
  "getSize st = sum_list (map (item_size st) (getAllKeys st))"

text \<open>
  \<open>cleanupOldItems\<close>. The parameter \<open>jsonTimestamp\<close> stands for \<open>JSON.parse(value).timestamp\<close>:
  it is \<open>None\<close> when the value does not parse or the parsed value has no \<open>timestamp\<close>, and
  the number otherwise (timestamps are \<open>Date.now()\<close> milliseconds, integers). The loop
  collects the keys whose value is truthy and whose timestamp is truthy (not zero), the
  sort by \<open>a.timestamp - b.timestamp\<close> is stable, and \<open>Math.ceil(items.length * 0.2)\<close> is
  taken in exact arithmetic, \<open>(n + 4) div 5\<close>.
\<close>

definition timestamped_items :: "(string \<Rightarrow> int option) \<Rightarrow> Storage \<Rightarrow> (string \<times> int) list" where
  "timestamped_items jsonTimestamp st =
     concat (map (\<lambda>key. case getItem st key of
                           None \<Rightarrow> []
                         | Some v \<Rightarrow>
                             if v = [] then []
                             else (case jsonTimestamp v of
                                     None \<Rightarrow> []
                                   | Some t \<Rightarrow> if t \<noteq> 0 then [(key, t)] else []))
                 (getAllKeys st))"

definition sorted_items :: "(string \<Rightarrow> int option) \<Rightarrow> Storage \<Rightarrow> (string \<times> int) list" where
  "sorted_items jsonTimestamp st = sort_key snd (timestamped_items jsonTimestamp st)"

definition itemsToRemove :: "(string \<Rightarrow> int option) \<Rightarrow> Storage \<Rightarrow> nat" where
  "itemsToRemove jsonTimestamp st = (length (sorted_items jsonTimestamp st) + 4) div 5"

definition keysToRemove :: "(string \<Rightarrow> int option) \<Rightarrow> Storage \<Rightarrow> string list" where
  "keysToRemove jsonTimestamp st =
     map fst (take (itemsToRemove jsonTimestamp st) (sorted_items jsonTimestamp st))"

definition cleanupOldItems :: "(string \<Rightarrow> int option) \<Rightarrow> Storage \<Rightarrow> Storage" where
  "cleanupOldItems jsonTimestamp st = multiRemove (keysToRemove jsonTimestamp st) st"

text \<open>
  \<open>setItem\<close>: the size check, the cleanup, the second check, and the write. The result is
  the thrown error, if any, and the storage the call leaves.
\<close>

definition setItem :: "(string \<Rightarrow> int option) \<Rightarrow> string \<Rightarrow> string \<Rightarrow> Storage \<Rightarrow> Thrown option \<times> Storage" where
  "setItem jsonTimestamp key val st =
     (if getSize st + length val > STORAGE_SIZE_LIMIT then
        (let st = cleanupOldItems jsonTimestamp st in
         if getSize st + length val > STORAGE_SIZE_LIMIT
         then (Some (Throw StorageError ''Storage size limit exceeded''), st)
         else (None, store_setItem key val st))
      else (None, store_setItem key val st))"

section \<open>Product cache\<close>

text \<open>
  The product record of the service's database, with the fields the lookup uses, and the
  cache entry \<open>{ product, timestamp }\<close>.
\<close>

record Product =
  pid :: string
  barcode :: string
  name :: string
  brand :: string
  safety_score :: int

record CachedProduct =
  cached_product :: Product
  timestamp :: int

text \<open>
  \<open>JSON.parse\<close> and \<open>JSON.stringify\<close> on cache entries are parameters of the model:
  \<open>parseCached\<close> is \<open>None\<close> when \<open>JSON.parse\<close> throws.
\<close>

record CacheCodec =
  parseCached :: "string \<Rightarrow> CachedProduct option"
  stringifyCached :: "CachedProduct \<Rightarrow> string"
  jsonTimestamp :: "string \<Rightarrow> int option"

definition CACHE_EXPIRY_MS :: int where
  "CACHE_EXPIRY_MS = 24 * 60 * 60 * 1000"

definition CACHE_KEY_PREFIX :: string where
  "CACHE_KEY_PREFIX = ''scani_product_''"

text \<open>\<open>saveToCache\<close> swallows the error of \<open>Storage.setItem\<close>.\<close>

definition saveToCache :: "CacheCodec \<Rightarrow> int \<Rightarrow> Product \<Rightarrow> Storage \<Rightarrow> Storage" where
  "saveToCache J now p st =
     (let cacheKey = CACHE_KEY_PREFIX @ barcode p;
          cacheData = \<lparr>cached_product = p, timestamp = now\<rparr>
      in snd (setItem (jsonTimestamp J) cacheKey (stringifyCached J cacheData) st))"

text \<open>
  \<open>getFromCache\<close>: \<open>null\<close> when there is no (truthy) entry, when the entry does not parse
  (the exception is caught), and when the entry is expired, in which case it is removed.
\<close>

definition getFromCache :: "CacheCodec \<Rightarrow> int \<Rightarrow> string \<Rightarrow> Storage \<Rightarrow> Product option \<times> Storage" where
  "getFromCache J now bc st =
     (let cacheKey = CACHE_KEY_PREFIX @ bc in
      case getItem st cacheKey of
        None \<Rightarrow> (None, st)
      | Some cachedData \<Rightarrow>
          if cachedData = [] then (None, st)
          else (case parseCached J cachedData of
                  None \<Rightarrow> (None, st)
                | Some c \<Rightarrow>
                    if now - timestamp c > CACHE_EXPIRY_MS
                    then (None, removeItem cacheKey st)
                    else (Some (cached_product c), st)))"


section \<open>API requests (makeApiRequest)\<close>

text \<open>
  JavaScript numbers as far as the request code needs them: an integer or \<open>NaN\<close>. A thrown
  JavaScript error that is not one of the service's is a \<open>TypeError\<close> or something else,
  with its message.
\<close>

datatype JsNumber = Number int | NaN

datatype JsError = JsTypeError string | JsOtherError string

fun js_message :: "JsError \<Rightarrow> string" where
  "js_message (JsTypeError m) = m"
| "js_message (JsOtherError m) = m"

text \<open>
  \<open>parseInt\<close> with no radix, as the language defines it: leading white space is skipped,
  then an optional sign, then an optional \<open>0x\<close> or \<open>0X\<close> that selects radix 16; the longest
  run of digits of the radix is read, and without a digit the result is \<open>NaN\<close>. Characters
  are the code units 0 to 255, as in the value of a response header; the white space among
  them is 9 to 13, 32 and 160. Integers are exact (a double holds them up to 2^53).
\<close>

definition is_whitespace :: "char \<Rightarrow> bool" where
  "is_whitespace c =
     (let n = (of_char c :: nat) in (9 \<le> n \<and> n \<le> 13) \<or> n = 32 \<or> n = 160)"

definition digit_value :: "char \<Rightarrow> nat option" where
  "digit_value c =
     (let n = (of_char c :: nat) in
      if 48 \<le> n \<and> n \<le> 57 then Some (n - 48)
      else if 97 \<le> n \<and> n \<le> 122 then Some (n - 87)
      else if 65 \<le> n \<and> n \<le> 90 then Some (n - 55)
      else None)"

definition radix_digit :: "nat \<Rightarrow> char \<Rightarrow> bool" where
  "radix_digit R c = (case digit_value c of None \<Rightarrow> False | Some d \<Rightarrow> d < R)"

definition digits_value :: "nat \<Rightarrow> string \<Rightarrow> nat" where
  "digits_value R z =
     foldl (\<lambda>acc c. acc * R + (case digit_value c of None \<Rightarrow> 0 | Some d \<Rightarrow> d)) 0 z"

definition parseInt :: "string \<Rightarrow> JsNumber" where
  "parseInt input =
     (let s = dropWhile is_whitespace input;
          negative = (s \<noteq> [] \<and> hd s = CHR ''-'');
          s = (if s \<noteq> [] \<and> (hd s = CHR ''+'' \<or> hd s = CHR ''-'') then tl s else s);
          hex = (prefix ''0x'' s \<or> prefix ''0X'' s);
          R = (if hex then 16 else 10);
          s = (if hex then drop 2 s else s);
          z = takeWhile (radix_digit R) s
      in if z = [] then NaN
         else Number (if negative then - int (digits_value R z) else int (digits_value R z)))"

fun js_times :: "JsNumber \<Rightarrow> int \<Rightarrow> JsNumber" where
  "js_times (Number n) k = Number (n * k)"
| "js_times NaN k = NaN"

text \<open>The decimal text of a number, for \<open>${response.status}\<close>.\<close>

definition digit_char :: "nat \<Rightarrow> char" where
  "digit_char d = ''0123456789'' ! d"

function show_nat :: "nat \<Rightarrow> string" where
  "show_nat n = (if n < 10 then [digit_char n] else show_nat (n div 10) @ [digit_char (n mod 10)])"
  by pat_completeness auto

termination show_nat
  by (relation "measure (\<lambda>n. n)") auto

declare show_nat.simps [simp del]

text \<open>
  What one attempt of \<open>makeApiRequest\<close> meets: \<open>navigator.onLine\<close> is false; \<open>fetch\<close>
  rejects with an error; or \<open>fetch\<close> resolves with a response, given by its status, its
  status text, its \<open>Retry-After\<close> header (\<open>None\<close> when \<open>headers.get\<close> returns \<open>null\<close>) and what
  \<open>response.json()\<close> gives, the data or the error it throws.
\<close>

datatype 'a Attempt =
    NavigatorOffline
  | FetchRejected JsError
  | HttpResponse nat string "string option" "JsError + 'a"

text \<open>
  The \<open>catch\<close> block on an error that is not the service's own: a \<open>TypeError\<close> becomes a
  \<open>NetworkError\<close>, anything else a \<open>ProductServiceError\<close>.
\<close>

fun wrap_error :: "JsError \<Rightarrow> Thrown" where
  "wrap_error (JsTypeError m) = Throw NetworkError ''Network error while making API request''"
| "wrap_error (JsOtherError m) = Throw ProductServiceError (''Unexpected error in API request: '' @ m)"

text \<open>
  The delay in milliseconds that the 429 branch hands to \<open>setTimeout\<close>: \<open>waitTime * 1000\<close>
  with \<open>waitTime = retryAfter ? parseInt(retryAfter) : 5\<close>.
\<close>

definition timer_delay :: "string option \<Rightarrow> JsNumber" where
  "timer_delay retryAfter =
     (let waitTime = (case retryAfter of
                        None \<Rightarrow> Number 5
                      | Some h \<Rightarrow> if h \<noteq> [] then parseInt h else Number 5)
      in js_times waitTime 1000)"

text \<open>
  \<open>makeApiRequest\<close> for an endpoint runs against the list of what its successive attempts
  meet. The result is what the call settles with, \<open>Inl\<close> the thrown error and \<open>Inr\<close> the data,
  and the list of the delays it handed to \<open>setTimeout\<close> before its retries. On status 429 the
  function sets the timer and calls itself; when the list has no further attempt the call
  has not settled, which is the result \<open>None\<close>. (\<open>enforceRateLimit\<close> only delays the call.)
\<close>

fun makeApiRequest :: "string \<Rightarrow> 'a Attempt list \<Rightarrow> (Thrown + 'a) option \<times> JsNumber list" where
  "makeApiRequest endpoint [] = (None, [])"
| "makeApiRequest endpoint (NavigatorOffline # rest) =
     (Some (Inl (Throw NetworkError ''No internet connection available'')), [])"
| "makeApiRequest endpoint (FetchRejected e # rest) = (Some (Inl (wrap_error e)), [])"
| "makeApiRequest endpoint (HttpResponse status statusText retryAfter json # rest) =
     (if 200 \<le> status \<and> status \<le> 299 then
        (case json of
           Inl e \<Rightarrow> (Some (Inl (wrap_error e)), [])
         | Inr d \<Rightarrow> (Some (Inr d), []))
      else if status = 429 then
        (let r = makeApiRequest endpoint rest
         in (fst r, timer_delay retryAfter # snd r))
      else if status = 404 then
        (Some (Inl (Throw ProductServiceError (''API endpoint not found: '' @ endpoint))), [])
      else if status = 500 \<or> status = 502 \<or> status = 503 \<or> status = 504 then
        (Some (Inl (Throw NetworkError (''API server error: '' @ statusText))), [])
      else
        (Some (Inl (Throw NetworkError
                      (''API request failed with status '' @ show_nat status @ '': '' @ statusText))),
         []))"

text \<open>A rate-limit response, and the timer delay of an attempt that is one.\<close>

fun rate_limited :: "'a Attempt \<Rightarrow> bool" where
  "rate_limited (HttpResponse status statusText retryAfter json) = (status = 429)"
| "rate_limited a = False"

fun retry_delay :: "'a Attempt \<Rightarrow> JsNumber" where
  "retry_delay (HttpResponse status statusText retryAfter json) = timer_delay retryAfter"
| "retry_delay a = Number 5000"

text \<open>A text of decimal digits and the number it writes.\<close>

definition is_decimal :: "string \<Rightarrow> bool" where
  "is_decimal z = (z \<noteq> [] \<and> list_all (radix_digit 10) z)"

section \<open>Retry backoff (calculateBackoffDelay)\<close>

definition DEFAULT_MAX_RETRIES :: nat where
  "DEFAULT_MAX_RETRIES = 5"

definition INITIAL_RETRY_DELAY :: real where
  "INITIAL_RETRY_DELAY = 1000"

definition MAX_RETRY_DELAY :: real where
  "MAX_RETRY_DELAY = 60 * 60 * 1000"

text \<open>
  The first argument is the draw of \<open>Math.random()\<close>, a number from 0 up to but not
  including 1. Numbers are reals: the rounding of the floating-point product is not
  modelled.
\<close>

definition calculateBackoffDelay :: "real \<Rightarrow> nat \<Rightarrow> real" where
  "calculateBackoffDelay random retryCount =
     min (INITIAL_RETRY_DELAY * 2 ^ retryCount * (0.8 + random * 0.4)) MAX_RETRY_DELAY"


section \<open>Operation queue\<close>

datatype OperationType = SUBMIT_PRODUCT | UPDATE_PRODUCT | UPLOAD_IMAGE | RECORD_SCAN | CUSTOM

datatype OperationStatus = PENDING | IN_PROGRESS | COMPLETED | FAILED | RETRY

datatype ScanSource = FromCache | FromDatabase | FromApi

text \<open>
  \<open>QueuedOperationData\<close>: of the optional fields of the interface the model keeps the ones
  that \<open>processOperation\<close> itself inspects, \<open>productId\<close>, \<open>userId\<close>, \<open>source\<close> and whether
  \<open>process\<close> is a function. The payloads handed on to the remote calls are not inspected.
\<close>

record QueuedOperationData =
  productId :: "string option"
  userId :: "string option"
  source :: "ScanSource option"
  has_process :: bool

record QueuedOperation =
  op_id :: string
  op_type :: OperationType
  op_data :: QueuedOperationData
  status :: OperationStatus
  retryCount :: nat
  maxRetries :: nat
  nextRetryTime :: "real option"
  op_error :: "string option"
  createdAt :: int
  updatedAt :: int

record ScanHistory =
  scan_id :: string
  product_id :: "string option"
  user_id :: string
  scan_source :: ScanSource
  synced :: bool

text \<open>
  The module's state: the persisted queue, which is the parsed content of the storage entry
  \<open>scani_operation_queue\<close> (no entry is the empty queue), the single-flight flag, the pending
  wake-up with its delay, and the events handed to the listeners, each as the event's name
  and the id of the operation it carries.
\<close>

datatype Delay = Millis real | Infinity

record QueueState =
  queue :: "QueuedOperation list"
  queueProcessorRunning :: bool
  queueProcessorTimeout :: "Delay option"
  notified :: "(string \<times> string) list"

text \<open>
  What a call meets outside the module. \<open>date_now\<close> is \<open>Date.now()\<close>, taken as constant during
  one call. \<open>navigator_onLine\<close> is the browser's connectivity when the call reads it, and
  \<open>onLine_during k\<close> the connectivity at the \<open>k\<close>-th round of the processing loop.
  \<open>storage_accepts q\<close> tells whether \<open>Storage.setItem\<close> takes the serialized queue \<open>q\<close> or
  throws (the size budget above). \<open>currentUserId\<close> is what \<open>getCurrentUserId()\<close> resolves
  to. \<open>remote_call\<close> is the outcome of \<open>submitNewProduct\<close>, \<open>updateExistingProduct\<close> or
  \<open>uploadProductImage\<close> for an operation: the status code of the result, or the thrown
  error. \<open>scan_insert\<close> is the outcome of the insert into the \<open>scans\<close> table for a product
  and a user, \<open>custom_process\<close> the error that the \<open>process\<close> function of a custom operation
  throws if any, and \<open>math_random\<close> the draw of \<open>Math.random()\<close>.
\<close>

datatype RemoteResult = Returned int | Threw Thrown

datatype InsertResult = Inserted string | InsertError string | InsertNoData

record Env =
  date_now :: int
  navigator_onLine :: bool
  onLine_during :: "nat \<Rightarrow> bool"
  storage_accepts :: "QueuedOperation list \<Rightarrow> bool"
  currentUserId :: "string option"
  remote_call :: "QueuedOperation \<Rightarrow> RemoteResult"
  scan_insert :: "string option \<Rightarrow> string \<Rightarrow> InsertResult"
  custom_process :: "QueuedOperation \<Rightarrow> Thrown option"
  math_random :: real

definition isNetworkAvailable :: "Env \<Rightarrow> bool" where
  "isNetworkAvailable env = navigator_onLine env"

text \<open>JavaScript truthiness of an optional string: present and not empty.\<close>

definition truthy :: "string option \<Rightarrow> bool" where
  "truthy s = (case s of None \<Rightarrow> False | Some t \<Rightarrow> t \<noteq> [])"

text \<open>\<open>getCurrentUserId\<close> returns \<open>user?.id || null\<close>.\<close>

definition getCurrentUserId :: "Env \<Rightarrow> string option" where
  "getCurrentUserId env = (if truthy (currentUserId env) then currentUserId env else None)"

definition getOperationQueue :: "QueueState \<Rightarrow> QueuedOperation list" where
  "getOperationQueue st = queue st"

text \<open>\<open>saveOperationQueue\<close> logs and swallows the error of \<open>Storage.setItem\<close>.\<close>

definition saveOperationQueue :: "Env \<Rightarrow> QueuedOperation list \<Rightarrow> QueueState \<Rightarrow> QueueState" where
  "saveOperationQueue env q st = (if storage_accepts env q then st\<lparr>queue := q\<rparr> else st)"

definition notifyQueueEventListeners :: "string \<Rightarrow> string \<Rightarrow> QueueState \<Rightarrow> QueueState" where
  "notifyQueueEventListeners event operationId st =
     st\<lparr>notified := notified st @ [(event, operationId)]\<rparr>"

text \<open>
  \<open>updateOperation\<close>. The \<open>Partial<QueuedOperation>\<close> argument is a record of optional
  settings; for \<open>nextRetryTime\<close> and \<open>error\<close> a setting can be \<open>undefined\<close> (\<open>Some None\<close>), which
  clears the field. \<open>findIndex\<close> is \<open>Array.prototype.findIndex\<close> with \<open>None\<close> for -1.
\<close>

record OperationUpdates =
  set_status :: "OperationStatus option"
  set_retryCount :: "nat option"
  set_nextRetryTime :: "real option option"
  set_error :: "string option option"

fun findIndex :: "('a \<Rightarrow> bool) \<Rightarrow> 'a list \<Rightarrow> nat option" where
  "findIndex P [] = None"
| "findIndex P (x # xs) = (if P x then Some 0 else map_option Suc (findIndex P xs))"

definition spread :: "QueuedOperation \<Rightarrow> OperationUpdates \<Rightarrow> QueuedOperation" where
  "spread operation updates =
     operation
       \<lparr>status := (case set_status updates of None \<Rightarrow> status operation | Some s \<Rightarrow> s),
        retryCount := (case set_retryCount updates of None \<Rightarrow> retryCount operation | Some n \<Rightarrow> n),
        nextRetryTime := (case set_nextRetryTime updates of None \<Rightarrow> nextRetryTime operation | Some t \<Rightarrow> t),
        op_error := (case set_error updates of None \<Rightarrow> op_error operation | Some e \<Rightarrow> e)\<rparr>"

definition updateOperation ::
    "Env \<Rightarrow> string \<Rightarrow> OperationUpdates \<Rightarrow> QueueState \<Rightarrow> QueuedOperation option \<times> QueueState" where
  "updateOperation env operationId updates st =
     (let q = getOperationQueue st in
      case findIndex (\<lambda>op. op_id op = operationId) q of
        None \<Rightarrow> (None, st)
      | Some index \<Rightarrow>
          (let operation = (spread (q ! index) updates)\<lparr>updatedAt := date_now env\<rparr>;
               st = saveOperationQueue env (q[index := operation]) st;
               st = notifyQueueEventListeners ''operationUpdated'' (op_id operation) st
           in (Some operation, st)))"

section \<open>Queue processor (productService.ts)\<close>

text \<open>
  \<open>recordScan\<close>: the user is the given one or else the current one; without a user the call
  throws \<open>AuthenticationError\<close>; a failed insert throws \<open>DatabaseError\<close>.
\<close>

definition recordScan :: "Env \<Rightarrow> string option \<Rightarrow> string option \<Rightarrow> ScanSource \<Rightarrow> Thrown + ScanHistory" where
  "recordScan env pId uId src =
     (let uId = (if \<not> truthy uId then getCurrentUserId env else uId) in
      case uId of
        None \<Rightarrow> Inl (Throw AuthenticationError ''User not authenticated'')
      | Some u \<Rightarrow>
          (case scan_insert env pId u of
             InsertError msg \<Rightarrow> Inl (Throw DatabaseError (''Error recording scan: '' @ msg))
           | InsertNoData \<Rightarrow> Inl (Throw DatabaseError ''No data returned after recording scan'')
           | Inserted sid \<Rightarrow>
               Inr \<lparr>scan_id = sid, product_id = pId, user_id = u, scan_source = src, synced = False\<rparr>))"

text \<open>
  The \<open>switch\<close> of \<open>processOperation\<close>: \<open>Inr True\<close> is \<open>return true\<close>, \<open>Inl\<close> the error thrown
  inside the \<open>try\<close> block.
\<close>

definition remote_dispatch :: "Env \<Rightarrow> QueuedOperation \<Rightarrow> string \<Rightarrow> Thrown + bool" where
  "remote_dispatch env operation failure =
     (case remote_call env operation of
        Threw e \<Rightarrow> Inl e
      | Returned statusCode \<Rightarrow>
          if 200 \<le> statusCode \<and> statusCode < 300 then Inr True
          else Inl (Throw ProductServiceError failure))"

definition dispatchOperation :: "Env \<Rightarrow> QueuedOperation \<Rightarrow> Thrown + bool" where
  "dispatchOperation env operation =
     (case op_type operation of
        SUBMIT_PRODUCT \<Rightarrow> remote_dispatch env operation ''Failed to submit product''
      | UPDATE_PRODUCT \<Rightarrow> remote_dispatch env operation ''Failed to update product''
      | UPLOAD_IMAGE \<Rightarrow> remote_dispatch env operation ''Failed to upload image''
      | RECORD_SCAN \<Rightarrow>
          (let d = op_data operation;
               actualUserId = userId d;
               actualUserId = (if \<not> truthy actualUserId \<or> actualUserId = Some ''pending-auth''
                               then getCurrentUserId env else actualUserId)
           in if \<not> truthy actualUserId then Inl (Throw AuthenticationError ''User not authenticated'')
              else (case recordScan env (productId d) actualUserId
                           (case source d of None \<Rightarrow> FromApi | Some s \<Rightarrow> s) of
                      Inl e \<Rightarrow> Inl e
                    | Inr scan \<Rightarrow> Inr True))
      | CUSTOM \<Rightarrow>
          if has_process (op_data operation) then
            (case custom_process env operation of Some e \<Rightarrow> Inl e | None \<Rightarrow> Inr True)
          else Inl (Throw QueueError ''Custom operation does not provide a process function''))"

text \<open>
  \<open>processOperation\<close> of \<open>productService.ts\<close>: the operation is marked in progress, the
  \<open>switch\<close> runs, and the \<open>catch\<close> block turns a thrown error into the returned flag.
\<close>

definition processOperation :: "Env \<Rightarrow> QueuedOperation \<Rightarrow> QueueState \<Rightarrow> bool \<times> QueueState" where
  "processOperation env operation st =
     (let st = snd (updateOperation env (op_id operation)
                     \<lparr>set_status = Some IN_PROGRESS, set_retryCount = None,
                      set_nextRetryTime = None, set_error = None\<rparr> st)
      in case dispatchOperation env operation of
           Inr r \<Rightarrow> (r, st)
         | Inl e \<Rightarrow>
             if kind e = NetworkError then (False, st)
             else if kind e = AuthenticationError then (retryCount operation < 1, st)
             else (False, st))"

text \<open>
  \<open>processOperationQueue\<close>. \<open>processOperationQueue_enter\<close> is the part that runs before the
  first \<open>await\<close>: the check of the single-flight flag, the connectivity check, the clearing
  of the pending wake-up and the setting of the flag. It returns at once (\<open>Inl\<close> the returned
  number) or starts a pass (\<open>Inr\<close> the state with the flag set). \<open>processOperationQueue_pass\<close>
  is the rest of the \<open>try\<close> block with the \<open>finally\<close> block.
\<close>

definition processOperationQueue_enter :: "bool \<Rightarrow> Env \<Rightarrow> QueueState \<Rightarrow> nat + QueueState" where
  "processOperationQueue_enter force env st =
     (if queueProcessorRunning st then Inl 0
      else if \<not> force \<and> \<not> isNetworkAvailable env then Inl 0
      else Inr (st\<lparr>queueProcessorTimeout := None, queueProcessorRunning := True\<rparr>))"

definition ready :: "int \<Rightarrow> QueuedOperation \<Rightarrow> bool" where
  "ready t operation =
     (status operation = PENDING \<or>
      (status operation = RETRY \<and>
         (case nextRetryTime operation of
            None \<Rightarrow> True
          | Some r \<Rightarrow> r = 0 \<or> r \<le> real_of_int t)))"

fun process_loop ::
    "bool \<Rightarrow> Env \<Rightarrow> nat \<Rightarrow> QueuedOperation list \<Rightarrow> nat \<Rightarrow> QueueState \<Rightarrow> nat \<times> QueueState" where
  "process_loop force env k [] processedCount st = (processedCount, st)"
| "process_loop force env k (operation # rest) processedCount st =
     (if \<not> force \<and> \<not> onLine_during env k then (processedCount, st)
      else (case processOperation env operation st of
              (success, st) \<Rightarrow>
                process_loop force env (Suc k) rest
                  (if success then processedCount + 1 else processedCount) st))"

text \<open>\<open>Math.min(...remainingRetries.map(op => op.nextRetryTime || Infinity))\<close>.\<close>

fun soonest :: "QueuedOperation list \<Rightarrow> Delay" where
  "soonest [] = Infinity"
| "soonest (operation # rest) =
     (case nextRetryTime operation of
        None \<Rightarrow> soonest rest
      | Some r \<Rightarrow>
          if r = 0 then soonest rest
          else (case soonest rest of Infinity \<Rightarrow> Millis r | Millis m \<Rightarrow> Millis (min r m)))"

definition schedule_retry :: "Env \<Rightarrow> QueueState \<Rightarrow> QueueState" where
  "schedule_retry env st =
     (let remainingRetries = filter (\<lambda>op. status op = RETRY) (getOperationQueue st) in
      if remainingRetries \<noteq> [] then
        (let delay = (case soonest remainingRetries of
                        Infinity \<Rightarrow> Infinity
                      | Millis t \<Rightarrow> Millis (max (t - real_of_int (date_now env)) 1000))
         in st\<lparr>queueProcessorTimeout := Some delay\<rparr>)
      else st)"

definition processOperationQueue_pass :: "bool \<Rightarrow> Env \<Rightarrow> QueueState \<Rightarrow> nat \<times> QueueState" where
  "processOperationQueue_pass force env st =
     (let q = getOperationQueue st in
      if q = [] then (0, st\<lparr>queueProcessorRunning := False\<rparr>)
      else
        (let st = notifyQueueEventListeners ''queueProcessingStarted'' ''queue-processing'' st;
             operationsToProcess = filter (ready (date_now env)) q
         in case process_loop force env 0 operationsToProcess 0 st of
              (processedCount, st) \<Rightarrow>
                (let st = schedule_retry env st;
                     st = notifyQueueEventListeners ''queueProcessingCompleted'' ''queue-processing'' st
                 in (processedCount, st\<lparr>queueProcessorRunning := False\<rparr>))))"

definition processOperationQueue :: "bool \<Rightarrow> Env \<Rightarrow> QueueState \<Rightarrow> nat \<times> QueueState" where
  "processOperationQueue force env st =
     (case processOperationQueue_enter force env st of
        Inl n \<Rightarrow> (n, st)
      | Inr st \<Rightarrow> processOperationQueue_pass force env st)"

text \<open>
  A call \<open>processOperationQueue()\<close> that is not awaited: by the time the caller goes on, the
  part before the first \<open>await\<close> has run.
\<close>

definition trigger_processing :: "Env \<Rightarrow> QueueState \<Rightarrow> QueueState" where
  "trigger_processing env st =
     (case processOperationQueue_enter False env st of Inl n \<Rightarrow> st | Inr st \<Rightarrow> st)"

text \<open>
  \<open>enqueueOperation\<close>; the generated id \<open>op_<time>_<random>\<close> is the argument \<open>newId\<close>.
\<close>

definition enqueueOperation ::
    "Env \<Rightarrow> string \<Rightarrow> OperationType \<Rightarrow> QueuedOperationData \<Rightarrow> nat option \<Rightarrow> QueueState
       \<Rightarrow> QueuedOperation \<times> QueueState" where
  "enqueueOperation env newId type d maxRetriesOption st =
     (let operation =
            \<lparr>op_id = newId, op_type = type, op_data = d, status = PENDING, retryCount = 0,
             maxRetries = (case maxRetriesOption of None \<Rightarrow> DEFAULT_MAX_RETRIES | Some m \<Rightarrow> m),
             nextRetryTime = None, op_error = None, createdAt = date_now env, updatedAt = date_now env\<rparr>;
          q = getOperationQueue st;
          st = saveOperationQueue env (q @ [operation]) st;
          st = notifyQueueEventListeners ''operationAdded'' (op_id operation) st;
          st = (if isNetworkAvailable env then trigger_processing env st else st)
      in (operation, st))"

definition retryOperation :: "Env \<Rightarrow> string \<Rightarrow> QueueState \<Rightarrow> QueuedOperation option \<times> QueueState" where
  "retryOperation env operationId st =
     (let q = getOperationQueue st in
      case find (\<lambda>op. op_id op = operationId) q of
        None \<Rightarrow> (None, st)
      | Some operation \<Rightarrow>
          if status operation \<noteq> FAILED then (None, st)
          else
            (case updateOperation env operationId
                    \<lparr>set_status = Some PENDING, set_retryCount = Some 0,
                     set_nextRetryTime = Some None, set_error = Some None\<rparr> st of
               (updatedOperation, st) \<Rightarrow>
                 (updatedOperation,
                  if isNetworkAvailable env then trigger_processing env st else st)))"

section \<open>Queue processor (second copy of the service)\<close>

text \<open>
  The repository holds a second copy of the service, in the unnamed source part_003, whose
  \<open>processOperation\<close> differs. There \<open>recordScan\<close> wraps every error of its \<open>try\<close> block,
  its own \<open>AuthenticationError\<close> included, in a \<open>DatabaseError\<close>; the results of the remote
  calls are not inspected; only the placeholder user \<open>pending-auth\<close> is resolved before
  \<open>recordScan\<close> is called; and the function itself records the outcome in the queue.
\<close>

definition recordScan_copy :: "Env \<Rightarrow> string option \<Rightarrow> string option \<Rightarrow> ScanSource \<Rightarrow> Thrown + ScanHistory" where
  "recordScan_copy env pId uId src =
     (let uId = (if \<not> truthy uId then getCurrentUserId env else uId) in
      case uId of
        None \<Rightarrow> Inl (Throw DatabaseError ''Failed to record scan for product'')
      | Some u \<Rightarrow>
          (case scan_insert env pId u of
             InsertError msg \<Rightarrow> Inl (Throw DatabaseError ''Failed to record scan for product'')
           | InsertNoData \<Rightarrow>
               Inr \<lparr>scan_id = [], product_id = pId, user_id = u, scan_source = src, synced = True\<rparr>
           | Inserted sid \<Rightarrow>
               Inr \<lparr>scan_id = sid, product_id = pId, user_id = u, scan_source = src, synced = True\<rparr>))"

definition dispatchOperation_copy :: "Env \<Rightarrow> QueuedOperation \<Rightarrow> Thrown option" where
  "dispatchOperation_copy env operation =
     (case op_type operation of
        RECORD_SCAN \<Rightarrow>
          (let uId = userId (op_data operation);
               uId = (if uId = Some ''pending-auth'' then getCurrentUserId env else uId)
           in if userId (op_data operation) = Some ''pending-auth'' \<and> \<not> truthy uId
              then Some (Throw AuthenticationError
                           ''User must be authenticated to process scan operation'')
              else (case recordScan_copy env (productId (op_data operation)) uId FromDatabase of
                      Inl e \<Rightarrow> Some e
                    | Inr scan \<Rightarrow> None))
      | CUSTOM \<Rightarrow>
          if has_process (op_data operation) then custom_process env operation
          else Some (Throw QueueError ''Custom operation missing process function'')
      | _ \<Rightarrow> (case remote_call env operation of Threw e \<Rightarrow> Some e | Returned statusCode \<Rightarrow> None))"

definition processOperation_copy :: "Env \<Rightarrow> QueuedOperation \<Rightarrow> QueueState \<Rightarrow> bool \<times> QueueState" where
  "processOperation_copy env operation st =
     (let st = snd (updateOperation env (op_id operation)
                     \<lparr>set_status = Some IN_PROGRESS, set_retryCount = None,
                      set_nextRetryTime = None, set_error = None\<rparr> st)
      in case dispatchOperation_copy env operation of
           None \<Rightarrow>
             (let st = snd (updateOperation env (op_id operation)
                             \<lparr>set_status = Some COMPLETED, set_retryCount = None,
                              set_nextRetryTime = None, set_error = None\<rparr> st);
                  st = notifyQueueEventListeners ''operationCompleted'' (op_id operation) st
              in (True, st))
         | Some e \<Rightarrow>
             if retryCount operation < maxRetries operation then
               (let backoffDelay = calculateBackoffDelay (math_random env) (retryCount operation);
                    retryTime = real_of_int (date_now env) + backoffDelay;
                    st = snd (updateOperation env (op_id operation)
                               \<lparr>set_status = Some RETRY,
                                set_retryCount = Some (retryCount operation + 1),
                                set_nextRetryTime = Some (Some retryTime),
                                set_error = Some (Some (message e))\<rparr> st)
                in (False, st))
             else
               (let st = snd (updateOperation env (op_id operation)
                               \<lparr>set_status = Some FAILED, set_retryCount = None,
                                set_nextRetryTime = None,
                                set_error = Some (Some (message e))\<rparr> st);
                    st = notifyQueueEventListeners ''operationFailed'' (op_id operation) st
                in (False, st)))"


section \<open>Overlapping calls of the queue processor\<close>

text \<open>
  JavaScript runs one piece of code at a time and switches between calls only at an
  \<open>await\<close>. A call of \<open>processOperationQueue\<close> therefore runs its part before the first
  \<open>await\<close> in one piece; if that part starts a pass, the rest of the pass runs later, and
  other calls can be made before it completes. A schedule is a list of such events:
  \<open>Call force env\<close> is a new call, and \<open>Complete i env\<close> lets the pass of the \<open>i\<close>-th call run
  to its end. The calls made so far are kept with what has become of them: \<open>Running\<close> while
  the pass is active, \<open>Done n\<close> once the call has returned \<open>n\<close>.
\<close>

datatype Invocation = Running bool | Done nat

datatype Event = Call bool Env | Complete nat Env

fun is_running :: "Invocation \<Rightarrow> bool" where
  "is_running (Running force) = True"
| "is_running (Done n) = False"

fun perform :: "Event \<Rightarrow> QueueState \<times> Invocation list \<Rightarrow> QueueState \<times> Invocation list" where
  "perform (Call force env) (st, calls) =
     (case processOperationQueue_enter force env st of
        Inl n \<Rightarrow> (st, calls @ [Done n])
      | Inr st' \<Rightarrow> (st', calls @ [Running force]))"
| "perform (Complete i env) (st, calls) =
     (if i < length calls then
        (case calls ! i of
           Running force \<Rightarrow>
             (case processOperationQueue_pass force env st of
                (n, st') \<Rightarrow> (st', calls[i := Done n]))
         | Done n \<Rightarrow> (st, calls))
      else (st, calls))"

fun run :: "Event list \<Rightarrow> QueueState \<times> Invocation list \<Rightarrow> QueueState \<times> Invocation list" where
  "run [] c = c"
| "run (e # es) c = run es (perform e c)"

definition active_passes :: "Invocation list \<Rightarrow> nat" where
  "active_passes calls = length (filter is_running calls)"

text \<open>The flag is set exactly when one pass is active, and no more than one is.\<close>

definition flag_counts :: "QueueState \<times> Invocation list \<Rightarrow> bool" where
  "flag_counts c = (active_passes (snd c) = (if queueProcessorRunning (fst c) then 1 else 0))"


section \<open>Barcode lookup (processBarcodeScan of productService.ts)\<close>

text \<open>
  The lookup works on the storage (for the product cache) and on the queue state, and the
  model keeps a log of the tiers it queries and of the remote calls it starts:
  \<open>ApiQuery\<close> for \<open>fetchProductFromAPI\<close>, \<open>CacheQuery\<close> for \<open>getFromCache\<close>,
  \<open>DatabaseQuery\<close> for \<open>getProductByBarcode\<close>, \<open>DatabaseSave\<close> for the background
  \<open>saveProductToDatabase\<close>, \<open>UserQuery\<close> for \<open>getCurrentUserId\<close> and \<open>ScanInsert\<close> for the
  insert into \<open>scans\<close>. Every event but \<open>CacheQuery\<close> is a network call.
\<close>

datatype TierEvent = ApiQuery | CacheQuery | DatabaseQuery | DatabaseSave | UserQuery | ScanInsert

fun is_network_call :: "TierEvent \<Rightarrow> bool" where
  "is_network_call CacheQuery = False"
| "is_network_call e = True"

record AppState =
  storage :: Storage
  queue_state :: QueueState
  tier_log :: "TierEvent list"

text \<open>
  The operation queue is an entry of the storage, under \<open>scani_operation_queue\<close>. The
  queue functions above work on the parsed queue; in the lookup the parsed queue is read
  from the storage entry (\<open>getOperationQueue\<close>: no entry, an empty one or one that does not
  parse is the empty queue), and it is written with \<open>Storage.setItem\<close>, which checks the size
  budget and may run the cleanup. \<open>JSON.parse\<close> and \<open>JSON.stringify\<close> on the queue are
  parameters. The \<open>queue\<close> field of \<open>queue_state\<close> is the queue as the last queue function
  left it.
\<close>

definition QUEUE_STORAGE_KEY :: string where
  "QUEUE_STORAGE_KEY = ''scani_operation_queue''"

record QueueCodec =
  parseQueue :: "string \<Rightarrow> QueuedOperation list option"
  stringifyQueue :: "QueuedOperation list \<Rightarrow> string"

definition stored_queue :: "QueueCodec \<Rightarrow> Storage \<Rightarrow> QueuedOperation list" where
  "stored_queue Q s =
     (case getItem s QUEUE_STORAGE_KEY of
        None \<Rightarrow> []
      | Some queueData \<Rightarrow>
          if queueData = [] then []
          else (case parseQueue Q queueData of None \<Rightarrow> [] | Some q \<Rightarrow> q))"

definition write_queue ::
    "CacheCodec \<Rightarrow> QueueCodec \<Rightarrow> QueuedOperation list \<Rightarrow> Storage \<Rightarrow> Thrown option \<times> Storage" where
  "write_queue J Q q s = setItem (jsonTimestamp J) QUEUE_STORAGE_KEY (stringifyQueue Q q) s"

text \<open>
  \<open>enqueueOperation\<close> on the storage: the queue is the stored one, \<open>storage_accepts\<close> is
  whether \<open>Storage.setItem\<close> takes the new queue, and the storage is what that call of
  \<open>Storage.setItem\<close> leaves (the new entry, or after a refused write the storage as the
  cleanup left it).
\<close>

definition enqueue_stored ::
    "CacheCodec \<Rightarrow> QueueCodec \<Rightarrow> Env \<Rightarrow> string \<Rightarrow> OperationType \<Rightarrow> QueuedOperationData
       \<Rightarrow> nat option \<Rightarrow> AppState \<Rightarrow> QueuedOperation \<times> AppState" where
  "enqueue_stored J Q env newId type d m st =
     (let s = storage st;
          q = stored_queue Q s;
          env = env\<lparr>storage_accepts := (\<lambda>q'. fst (write_queue J Q q' s) = None)\<rparr>
      in case enqueueOperation env newId type d m ((queue_state st)\<lparr>queue := q\<rparr>) of
           (operation, qs) \<Rightarrow>
             (operation,
              st\<lparr>queue_state := qs, storage := snd (write_queue J Q (q @ [operation]) s)\<rparr>))"

text \<open>
  What the lookup meets outside: the environment of the queue functions; what
  \<open>makeApiRequest\<close> settles with for \<open>product/<barcode>.json\<close>, the thrown error or the
  response body (its \<open>status\<close>, \<open>result.id\<close>, \<open>code\<close> and \<open>product\<close> object); the outcome of the
  database query by barcode (a row, no row, or an error); the UUID generated for the
  provisional product; and the id generated for a queued operation. Connectivity is taken as
  constant during one lookup.
\<close>

record ApiBody =
  body_code :: string
  body_status :: string
  body_result_id :: "string option"
  body_product :: "ProductFields option"

datatype DatabaseResult = DatabaseRow Product | DatabaseNoRow | DatabaseFailure string

record LookupEnv =
  base :: Env
  api_request :: "Thrown + ApiBody"
  database_select :: DatabaseResult
  generated_uuid :: string
  generated_operation_id :: string

record ScanOutcome =
  found_product :: Product
  found_scan :: "ScanHistory option"
  found_source :: string

definition log_event :: "TierEvent \<Rightarrow> AppState \<Rightarrow> AppState" where
  "log_event e st = st\<lparr>tier_log := tier_log st @ [e]\<rparr>"

text \<open>
  \<open>fetchProductFromAPI\<close>: \<open>Inr None\<close> is the returned \<open>null\<close> (the
  \<open>ProductNotFoundError\<close> is caught), \<open>Inl\<close> a rethrown error.
\<close>

definition fetchProductFromAPI :: "LookupEnv \<Rightarrow> string \<Rightarrow> Thrown + OpenFoodFactsProduct option" where
  "fetchProductFromAPI env bc =
     (if \<not> isNetworkAvailable (base env) then Inl (Throw NetworkError ''Network unavailable'')
      else (case api_request env of
              Inl e \<Rightarrow> if kind e = ProductNotFoundError then Inr None else Inl e
            | Inr body \<Rightarrow>
                if body_status body \<noteq> ''success'' \<or> body_result_id body \<noteq> Some ''product_found''
                then Inr None
                else (case body_product body of
                        None \<Rightarrow>
                          Inl (Throw ProductServiceError
                                 (''Invalid API response for barcode '' @ bc @ '' - missing product object''))
                      | Some p \<Rightarrow>
                          Inr (Some \<lparr>code = body_code body, api_status = body_status body,
                                     product = p, result_id = body_result_id body\<rparr>))))"

text \<open>
  \<open>mapApiResponseToProduct\<close>, on the fields of the product record that the model keeps; the
  id is not set yet.
\<close>

definition mapApiResponseToProduct :: "OpenFoodFactsProduct \<Rightarrow> string \<Rightarrow> Product" where
  "mapApiResponseToProduct apiProduct bc =
     \<lparr>pid = [], barcode = bc,
      name = (if truthy (product_name (product apiProduct)) then the (product_name (product apiProduct))
              else ''Unknown Product''),
      brand = (if truthy (brands (product apiProduct)) then the (brands (product apiProduct))
               else ''Unknown Brand''),
      safety_score = calculateHealthScore apiProduct\<rparr>"

text \<open>\<open>getProductByBarcode\<close>: a found row is also written to the cache.\<close>

definition getProductByBarcode ::
    "CacheCodec \<Rightarrow> LookupEnv \<Rightarrow> string \<Rightarrow> Storage \<Rightarrow> (Thrown + Product option) \<times> Storage" where
  "getProductByBarcode J env bc s =
     (case database_select env of
        DatabaseRow p \<Rightarrow> (Inr (Some p), saveToCache J (date_now (base env)) p s)
      | DatabaseNoRow \<Rightarrow> (Inr None, s)
      | DatabaseFailure msg \<Rightarrow>
          (Inl (Throw DatabaseError (''Failed to get product from database: '' @ msg)), s))"

text \<open>The remote calls that \<open>recordScan\<close> makes.\<close>

definition recordScan_calls :: "Env \<Rightarrow> string option \<Rightarrow> TierEvent list" where
  "recordScan_calls env uId =
     (if \<not> truthy uId then [UserQuery] else [])
     @ (if truthy uId \<or> getCurrentUserId env \<noteq> None then [ScanInsert] else [])"

text \<open>
  \<open>recordScanWithOfflineSupport\<close> as \<open>processBarcodeScan\<close> calls it, without options: the
  source is \<open>'api'\<close>. Online, the scan is recorded directly; if that fails, or offline, a
  \<open>RECORD_SCAN\<close> operation is queued. The result is the scan or the operation's id.
\<close>

definition recordScanWithOfflineSupport ::
    "CacheCodec \<Rightarrow> QueueCodec \<Rightarrow> LookupEnv \<Rightarrow> string \<Rightarrow> string option \<Rightarrow> AppState
       \<Rightarrow> (ScanHistory option \<times> string option) \<times> AppState" where
  "recordScanWithOfflineSupport J Q env pId uId st =
     (let isOnline = isNetworkAvailable (base env);
          direct = (if isOnline then Some (recordScan (base env) (Some pId) uId FromApi) else None);
          st = (if isOnline then st\<lparr>tier_log := tier_log st @ recordScan_calls (base env) uId\<rparr> else st)
      in case direct of
           Some (Inr scanRecord) \<Rightarrow> ((Some scanRecord, None), st)
         | _ \<Rightarrow>
             (case enqueue_stored J Q (base env) (generated_operation_id env) RECORD_SCAN
                     \<lparr>productId = Some pId, userId = uId, source = Some FromApi, has_process = False\<rparr>
                     None st of
                (operation, st) \<Rightarrow> ((None, Some (op_id operation)), st)))"

text \<open>
  The three tiers. Each gives the product with the name of its source, or nothing; errors
  of the API and of the database are logged and the lookup goes on. After a hit in the API
  the product gets the generated id and \<open>saveProductToDatabase\<close> is started in the
  background; what that call does later is not part of the lookup.
\<close>

definition api_tier :: "LookupEnv \<Rightarrow> string \<Rightarrow> AppState \<Rightarrow> (Product \<times> string) option \<times> AppState" where
  "api_tier env bc st =
     (let st = log_event ApiQuery st in
      case fetchProductFromAPI env bc of
        Inr (Some apiProduct) \<Rightarrow>
          (let productData = mapApiResponseToProduct apiProduct bc;
               p = productData\<lparr>pid := generated_uuid env\<rparr>
           in (Some (p, ''api''), log_event DatabaseSave st))
      | Inr None \<Rightarrow> (None, st)
      | Inl e \<Rightarrow> (None, st))"

definition cache_tier ::
    "CacheCodec \<Rightarrow> LookupEnv \<Rightarrow> string \<Rightarrow> AppState \<Rightarrow> (Product \<times> string) option \<times> AppState" where
  "cache_tier J env bc st =
     (let st = log_event CacheQuery st in
      case getFromCache J (date_now (base env)) bc (storage st) of
        (Some cachedProduct, s) \<Rightarrow> (Some (cachedProduct, ''cache''), st\<lparr>storage := s\<rparr>)
      | (None, s) \<Rightarrow> (None, st\<lparr>storage := s\<rparr>))"

definition database_tier ::
    "CacheCodec \<Rightarrow> LookupEnv \<Rightarrow> string \<Rightarrow> AppState \<Rightarrow> (Product \<times> string) option \<times> AppState" where
  "database_tier J env bc st =
     (let st = log_event DatabaseQuery st in
      case getProductByBarcode J env bc (storage st) of
        (Inr (Some dbProduct), s) \<Rightarrow> (Some (dbProduct, ''database''), st\<lparr>storage := s\<rparr>)
      | (Inr None, s) \<Rightarrow> (None, st\<lparr>storage := s\<rparr>)
      | (Inl e, s) \<Rightarrow> (None, st\<lparr>storage := s\<rparr>))"

text \<open>
  The constructor of \<open>ProductNotFoundError\<close> builds the message around its argument;
  \<open>processBarcodeScan\<close> hands it the whole sentence where the constructor expects the barcode.
\<close>

definition new_ProductNotFoundError :: "string \<Rightarrow> Thrown" where
  "new_ProductNotFoundError b =
     Throw ProductNotFoundError (''Product with barcode '' @ b @ '' not found'')"

text \<open>
  \<open>processBarcodeScan\<close>. The state returned is the state at the \<open>return\<close> of the lookup.
  (The cache cleanup that one lookup in a hundred starts is not awaited: \<open>cleanupCache\<close>
  reads the clock and suspends at its first \<open>await\<close>, on \<open>Storage.getAllKeys\<close>, and the lookup
  runs on to its \<open>return\<close> without another \<open>await\<close>; the removals of the cleanup come after
  that.)
\<close>

definition processBarcodeScan ::
    "CacheCodec \<Rightarrow> QueueCodec \<Rightarrow> LookupEnv \<Rightarrow> string \<Rightarrow> string option \<Rightarrow> AppState
       \<Rightarrow> (Thrown + ScanOutcome) \<times> AppState" where
  "processBarcodeScan J Q env bc uId st =
     (let isOnline = isNetworkAvailable (base env) in
      case (if isOnline then api_tier env bc st else (None, st)) of
        (found, st) \<Rightarrow>
      case (if found = None then cache_tier J env bc st else (found, st)) of
        (found, st) \<Rightarrow>
      case (if found = None \<and> isOnline then database_tier J env bc st else (found, st)) of
        (found, st) \<Rightarrow>
      (case found of
         None \<Rightarrow>
           (Inl (new_ProductNotFoundError (''Product with barcode '' @ bc @ '' not found'')), st)
       | Some (p, productSource) \<Rightarrow>
           (let st = (if productSource = ''database'' \<or> productSource = ''api''
                      then st\<lparr>storage := saveToCache J (date_now (base env)) p (storage st)\<rparr>
                      else st)
            in case recordScanWithOfflineSupport J Q env (pid p) uId st of
                 (scanResult, st) \<Rightarrow>
                   (Inr \<lparr>found_product = p, found_scan = fst scanResult, found_source = productSource\<rparr>,
                    st))))"


section \<open>Concrete inputs\<close>

text \<open>Inputs on which the theorems below are exercised.\<close>

definition example_product :: Product where
  "example_product =
     \<lparr>pid = ''p-1'', barcode = ''3017620422003'', name = ''Nutella'', brand = ''Ferrero'',
      safety_score = 100\<rparr>"

text \<open>
  A codec that knows one cache entry text, \<open>entry@t\<close> for the example product cached at
  time \<open>t\<close> with \<open>t\<close> one of 0 and 1000.
\<close>

definition example_codec :: CacheCodec where
  "example_codec =
     \<lparr>parseCached = (\<lambda>s. if s = ''entry@0'' then Some \<lparr>cached_product = example_product, timestamp = 0\<rparr>
                          else if s = ''entry@1000'' then Some \<lparr>cached_product = example_product, timestamp = 1000\<rparr>
                          else None),
      stringifyCached = (\<lambda>c. if timestamp c = 0 then ''entry@0'' else ''entry@1000''),
      jsonTimestamp = (\<lambda>s. if s = ''entry@1000'' then Some 1000 else None)\<rparr>"

definition example_storage :: Storage where
  "example_storage =
     \<lparr>backend = LocalStorage, entries = [(''scani_product_3017620422003'', ''entry@0'')]\<rparr>"

text \<open>
  A text of a given length, and a storage near its budget: two cached entries with the
  timestamps 100 and 50 and an entry without a timestamp. \<open>example_timestamp\<close> reads the
  timestamps of these texts.
\<close>

definition text_of_length :: "nat \<Rightarrow> string" where
  "text_of_length n = replicate n CHR ''x''"

definition example_timestamp :: "string \<Rightarrow> int option" where
  "example_timestamp v =
     (if length v = 4000000 then Some 100 else if length v = 5000000 then Some 50 else None)"

definition full_storage :: Storage where
  "full_storage =
     \<lparr>backend = LocalStorage,
      entries = [(''scani_product_1'', text_of_length 4000000),
                 (''scani_product_2'', text_of_length 5000000),
                 (''scani_credentials'', text_of_length 1000000)]\<rparr>"

definition queue_storage :: Storage where
  "queue_storage =
     \<lparr>backend = LocalStorage,
      entries = [(''scani_operation_queue'', text_of_length 6000000)]\<rparr>"

definition brim_storage :: Storage where
  "brim_storage =
     \<lparr>backend = LocalStorage, entries = [(''scani_a'', text_of_length 10485752)]\<rparr>"

text \<open>
  Queue processing: an environment that is online, with room in storage, no signed-in user
  and remote calls that succeed, and the same environment with a remote call that fails
  with a network error; a pending product submission and a pending scan record whose user
  is the placeholder.
\<close>

definition example_env :: Env where
  "example_env =
     \<lparr>date_now = 5000, navigator_onLine = True, onLine_during = (\<lambda>k. True),
      storage_accepts = (\<lambda>q. True), currentUserId = None,
      remote_call = (\<lambda>operation. Returned 200),
      scan_insert = (\<lambda>p u. Inserted ''scan-1''),
      custom_process = (\<lambda>operation. None), math_random = 1 / 2\<rparr>"

definition failing_env :: Env where
  "failing_env =
     example_env\<lparr>remote_call := (\<lambda>operation. Threw (Throw NetworkError ''No internet connection available''))\<rparr>"

definition no_data :: QueuedOperationData where
  "no_data = \<lparr>productId = None, userId = None, source = None, has_process = False\<rparr>"

definition submit_operation :: QueuedOperation where
  "submit_operation =
     \<lparr>op_id = ''op_1'', op_type = SUBMIT_PRODUCT, op_data = no_data, status = PENDING,
      retryCount = 0, maxRetries = 5, nextRetryTime = None, op_error = None,
      createdAt = 1000, updatedAt = 1000\<rparr>"

definition scan_operation :: QueuedOperation where
  "scan_operation =
     \<lparr>op_id = ''op_2'', op_type = RECORD_SCAN,
      op_data = \<lparr>productId = Some ''p-1'', userId = Some ''pending-auth'', source = Some FromCache,
                 has_process = False\<rparr>,
      status = PENDING, retryCount = 0, maxRetries = 5, nextRetryTime = None, op_error = None,
      createdAt = 2000, updatedAt = 2000\<rparr>"

definition failed_operation :: QueuedOperation where
  "failed_operation =
     \<lparr>op_id = ''op_3'', op_type = UPDATE_PRODUCT, op_data = no_data, status = FAILED,
      retryCount = 5, maxRetries = 5, nextRetryTime = Some 4000, op_error = Some ''API request failed'',
      createdAt = 3000, updatedAt = 4000\<rparr>"

definition idle_state :: "QueuedOperation list \<Rightarrow> QueueState" where
  "idle_state q =
     \<lparr>queue = q, queueProcessorRunning = False, queueProcessorTimeout = None, notified = []\<rparr>"

text \<open>
  Lookups: online with the product present upstream (Scenario A), and offline.
\<close>

definition online_lookup :: LookupEnv where
  "online_lookup =
     \<lparr>base = example_env,
      api_request = Inr \<lparr>body_code = ''3017620422003'', body_status = ''success'',
                          body_result_id = Some ''product_found'',
                          body_product = Some \<lparr>product_name = Some ''Nutella'', brands = Some ''Ferrero'',
                                                nutriscore_grade = Some ''A'', nova_group = Some 1,
                                                labels_tags = None\<rparr>\<rparr>,
      database_select = DatabaseNoRow,
      generated_uuid = ''uuid-1'',
      generated_operation_id = ''op_7''\<rparr>"

definition offline_lookup :: LookupEnv where
  "offline_lookup =
     \<lparr>base = example_env\<lparr>navigator_onLine := False\<rparr>,
      api_request = Inl (Throw NetworkError ''No internet connection available''),
      database_select = DatabaseFailure ''Failed to fetch'',
      generated_uuid = ''uuid-2'',
      generated_operation_id = ''op_8''\<rparr>"

text \<open>
  A queue codec that writes the empty queue as \<open>[]\<close> and any other queue as \<open>[...]\<close>.
\<close>

definition example_queue_codec :: QueueCodec where
  "example_queue_codec =
     \<lparr>parseQueue = (\<lambda>t. if t = ''[]'' then Some [] else None),
      stringifyQueue = (\<lambda>q. if q = [] then ''[]'' else ''[...]'')\<rparr>"

definition example_app :: AppState where
  "example_app = \<lparr>storage = example_storage, queue_state = idle_state [], tier_log = []\<rparr>"


section \<open>Properties of the health score\<close>

lemma str_includes_sublist: "str_includes s sub \<longleftrightarrow> sublist sub s"
  by (induction s) (auto simp: sublist_Cons_right)

lemma toUpperChar_eq_upper:
  assumes "65 \<le> (of_char d :: nat)" "(of_char d :: nat) \<le> 90"
  shows "toUpperChar c = d \<longleftrightarrow> (of_char c :: nat) = of_char d \<or> (of_char c :: nat) = of_char d + 32"
proof -
  let ?n = "of_char c :: nat" and ?m = "of_char d :: nat"
  show ?thesis
  proof (cases "97 \<le> ?n \<and> ?n \<le> 122")
    case True
    have "toUpperChar c = d \<longleftrightarrow> char_of (?n - 32) = d"
      using True by (simp add: toUpperChar_def Let_def)
    also have "\<dots> \<longleftrightarrow> (of_char (char_of (?n - 32) :: char) :: nat) = ?m"
      by (metis of_char_eq_iff)
    also have "\<dots> \<longleftrightarrow> ?n - 32 = ?m"
    proof -
      have "?n - 32 < 256" using True by linarith
      then have "(?n - 32) mod 256 = ?n - 32" by (rule mod_less)
      then show ?thesis by simp
    qed
    also have "\<dots> \<longleftrightarrow> ?n = ?m + 32"
      using True by auto
    finally show ?thesis using True assms by auto
  next
    case False
    then show ?thesis using assms
      by (auto simp: toUpperChar_def Let_def)
  qed
qed

lemma toUpperCase_single: "toUpperCase g = [d] \<longleftrightarrow> (\<exists>c. g = [c] \<and> toUpperChar c = d)"
  by (cases g) (auto simp: toUpperCase_def)

lemma toUpperChar_letter:
  assumes "65 \<le> (of_char d :: nat)" "(of_char d :: nat) \<le> 90"
  shows "toUpperChar c = d \<longleftrightarrow> c = d \<or> c = char_of ((of_char d :: nat) + 32)"
proof -
  have "(of_char c :: nat) = of_char d + 32 \<longleftrightarrow> c = char_of ((of_char d :: nat) + 32)"
  proof
    assume "(of_char c :: nat) = of_char d + 32"
    then have "char_of (of_char c :: nat) = (char_of ((of_char d :: nat) + 32) :: char)" by simp
    then show "c = char_of ((of_char d :: nat) + 32)" by simp
  next
    assume "c = char_of ((of_char d :: nat) + 32)"
    moreover have "((of_char d :: nat) + 32) mod 256 = of_char d + 32"
      using assms by (intro mod_less) linarith
    ultimately show "(of_char c :: nat) = of_char d + 32" by simp
  qed
  then show ?thesis
    using toUpperChar_eq_upper[OF assms, of c] by simp
qed

lemma toUpperCase_A: "toUpperCase g = ''A'' \<longleftrightarrow> g = ''A'' \<or> g = ''a''"
proof -
  have "char_of ((of_char (CHR ''A'') :: nat) + 32) = CHR ''a''" by code_simp
  then show ?thesis
    using toUpperChar_letter[of "CHR ''A''"] by (auto simp: toUpperCase_single)
qed

lemma toUpperCase_B: "toUpperCase g = ''B'' \<longleftrightarrow> g = ''B'' \<or> g = ''b''"
proof -
  have "char_of ((of_char (CHR ''B'') :: nat) + 32) = CHR ''b''" by code_simp
  then show ?thesis
    using toUpperChar_letter[of "CHR ''B''"] by (auto simp: toUpperCase_single)
qed

lemma toUpperCase_C: "toUpperCase g = ''C'' \<longleftrightarrow> g = ''C'' \<or> g = ''c''"
proof -
  have "char_of ((of_char (CHR ''C'') :: nat) + 32) = CHR ''c''" by code_simp
  then show ?thesis
    using toUpperChar_letter[of "CHR ''C''"] by (auto simp: toUpperCase_single)
qed

lemma toUpperCase_D: "toUpperCase g = ''D'' \<longleftrightarrow> g = ''D'' \<or> g = ''d''"
proof -
  have "char_of ((of_char (CHR ''D'') :: nat) + 32) = CHR ''d''" by code_simp
  then show ?thesis
    using toUpperChar_letter[of "CHR ''D''"] by (auto simp: toUpperCase_single)
qed

lemma toUpperCase_E: "toUpperCase g = ''E'' \<longleftrightarrow> g = ''E'' \<or> g = ''e''"
proof -
  have "char_of ((of_char (CHR ''E'') :: nat) + 32) = CHR ''e''" by code_simp
  then show ?thesis
    using toUpperChar_letter[of "CHR ''E''"] by (auto simp: toUpperCase_single)
qed

lemmas toUpperCase_letters =
  toUpperCase_A toUpperCase_B toUpperCase_C toUpperCase_D toUpperCase_E

lemma nutriscore_switch_points:
  "nutriscore_switch g score =
     score + (case grade_of_text g of None \<Rightarrow> 0 | Some x \<Rightarrow> grade_points x)"
  unfolding nutriscore_switch_def grade_of_text_def Let_def toUpperCase_letters
  by simp

lemma nova_switch_points:
  "nova_switch k score =
     score + (case level_of_number k of None \<Rightarrow> 0 | Some x \<Rightarrow> level_points x)"
  unfolding nova_switch_def level_of_number_def
  by simp

lemma organic_test:
  "list_ex (\<lambda>label. str_includes label ''organic'' \<or> str_includes label ''bio'')
      (case labels_tags (product p) of None \<Rightarrow> [] | Some ls \<Rightarrow> ls) = has_organic_label p"
  by (auto simp: has_organic_label_def list_ex_iff str_includes_sublist split: option.split)

lemma clamp_max_min: "max 0 (min 100 x) = clamp 0 100 x"
  by (simp add: clamp_def)

lemma grade_step:
  "(case nutriscore_grade (product p) of None \<Rightarrow> x | Some g \<Rightarrow> if g \<noteq> [] then nutriscore_switch g x else x)
     = x + (case letter_grade p of None \<Rightarrow> 0 | Some y \<Rightarrow> grade_points y)"
  by (simp add: letter_grade_def nutriscore_switch_points grade_of_text_def split: option.split)

lemma level_step:
  "(case nova_group (product p) of None \<Rightarrow> x | Some n \<Rightarrow> if n \<noteq> 0 then nova_switch n x else x)
     = x + (case processing_grade p of None \<Rightarrow> 0 | Some y \<Rightarrow> level_points y)"
  by (simp add: processing_grade_def nova_switch_points level_of_number_def split: option.split)

text \<open>
  Claim C6. For every external API product payload the computed health score is the clamp to
  0..100 of 50, plus the points of the letter nutrition grade if present (A +30, B +20, C +10,
  D -10, E -20), plus the points of the processing level if present (1 +20, 2 +10, 3 -10,
  4 -20), plus 10 if a label tag contains "organic" or "bio". \<open>calculateHealthScore\<close> is the
  code; \<open>health_score_rule\<close> is the rule in the specification's words.
\<close>

theorem calculateHealthScore_rule:
  "calculateHealthScore p =
     health_score_rule (letter_grade p) (processing_grade p) (has_organic_label p)"
  unfolding calculateHealthScore_def Let_def organic_test clamp_max_min grade_step level_step
    health_score_rule_def
  by simp

text \<open>
  Scenario A of the specification: nutriscore "A", nova_group 1 and no organic label score
  50 + 30 + 20 = 100.
\<close>

theorem calculateHealthScore_rule_witness:
  "calculateHealthScore
     \<lparr>code = ''3017620422003'', api_status = ''success'',
      product = \<lparr>product_name = Some ''Nutella'', brands = Some ''Ferrero'',
                 nutriscore_grade = Some ''A'', nova_group = Some 1, labels_tags = None\<rparr>,
      result_id = Some ''product_found''\<rparr> = 100
   \<and> health_score_rule (Some GradeA) (Some Level1) False = 100"
  using calculateHealthScore_rule
          [of "\<lparr>code = ''3017620422003'', api_status = ''success'',
                product = \<lparr>product_name = Some ''Nutella'', brands = Some ''Ferrero'',
                      nutriscore_grade = Some ''A'', nova_group = Some 1, labels_tags = None\<rparr>,
                result_id = Some ''product_found''\<rparr>"]
  by (simp add: letter_grade_def processing_grade_def has_organic_label_def grade_of_text_def
        level_of_number_def health_score_rule_def clamp_def)

section \<open>Properties of the storage adapter and the cache\<close>

lemma map_of_filter_key: "map_of (filter (\<lambda>e. fst e \<noteq> key) es) key = None"
  by (induction es) auto

lemma map_of_filter_other: "k \<noteq> key \<Longrightarrow> map_of (filter (\<lambda>e. fst e \<noteq> key) es) k = map_of es k"
  by (induction es) auto

lemma getItem_removeItem_same: "getItem (removeItem key st) key = None"
  by (simp add: getItem_def removeItem_def map_of_filter_key)

lemma getItem_removeItem_other: "k \<noteq> key \<Longrightarrow> getItem (removeItem key st) k = getItem st k"
  by (simp add: getItem_def removeItem_def map_of_filter_other split: option.split)

text \<open>
  Claim C7. The cache load returns absent when there is no stored entry, and when
  \<open>now - cachedAt\<close> exceeds the 24-hour TTL; in the expired case the entry is removed
  from storage. In particular an entry with \<open>cachedAt = now - TTL - 1\<close> is absent.
\<close>

theorem getFromCache_absent:
  "(getItem st (CACHE_KEY_PREFIX @ bc) = None \<longrightarrow> getFromCache J now bc st = (None, st))
   \<and> (getItem st (CACHE_KEY_PREFIX @ bc) = Some d \<and> d \<noteq> [] \<and> parseCached J d = Some c
        \<and> now - timestamp c > CACHE_EXPIRY_MS \<longrightarrow>
          getFromCache J now bc st = (None, removeItem (CACHE_KEY_PREFIX @ bc) st)
          \<and> getItem (removeItem (CACHE_KEY_PREFIX @ bc) st) (CACHE_KEY_PREFIX @ bc) = None)
   \<and> (getItem st (CACHE_KEY_PREFIX @ bc) = Some d \<and> d \<noteq> [] \<and> parseCached J d = Some c
        \<and> timestamp c = now - CACHE_EXPIRY_MS - 1 \<longrightarrow>
          fst (getFromCache J now bc st) = None
          \<and> getItem (snd (getFromCache J now bc st)) (CACHE_KEY_PREFIX @ bc) = None)"
  by (simp add: getFromCache_def Let_def getItem_removeItem_same)

theorem getFromCache_absent_witness:
  "getItem example_storage (CACHE_KEY_PREFIX @ ''3017620422003'') = Some ''entry@0''
   \<and> parseCached example_codec ''entry@0'' = Some \<lparr>cached_product = example_product, timestamp = 0\<rparr>
   \<and> getFromCache example_codec (CACHE_EXPIRY_MS + 1) ''3017620422003'' example_storage
       = (None, \<lparr>backend = LocalStorage, entries = []\<rparr>)
   \<and> getItem example_storage (CACHE_KEY_PREFIX @ ''12345678'') = None
   \<and> getFromCache example_codec (CACHE_EXPIRY_MS + 1) ''12345678'' example_storage
       = (None, example_storage)"
  using getFromCache_absent
          [of example_storage "''3017620422003''" example_codec "CACHE_EXPIRY_MS + 1"
              "''entry@0''" "\<lparr>cached_product = example_product, timestamp = 0\<rparr>"]
        getFromCache_absent
          [of example_storage "''12345678''" example_codec "CACHE_EXPIRY_MS + 1"]
  by (simp add: example_storage_def example_codec_def CACHE_KEY_PREFIX_def getItem_def
        removeItem_def)

text \<open>The boundary: an entry whose age is exactly the TTL is still served.\<close>

lemma getFromCache_fresh:
  "getItem st (CACHE_KEY_PREFIX @ bc) = Some d \<Longrightarrow> d \<noteq> [] \<Longrightarrow> parseCached J d = Some c \<Longrightarrow>
   now - timestamp c \<le> CACHE_EXPIRY_MS \<Longrightarrow>
   getFromCache J now bc st = (Some (cached_product c), st)"
  by (simp add: getFromCache_def Let_def)


section \<open>Properties of API requests\<close>

lemma radix_digit_10: "radix_digit 10 c \<longleftrightarrow> 48 \<le> (of_char c :: nat) \<and> (of_char c :: nat) \<le> 57"
  by (auto simp: radix_digit_def digit_value_def Let_def split: option.splits if_splits)

lemma decimal_digit_plain:
  assumes "radix_digit 10 c"
  shows "\<not> is_whitespace c" "c \<noteq> CHR ''+''" "c \<noteq> CHR ''-''" "c \<noteq> CHR ''x''" "c \<noteq> CHR ''X''"
proof -
  have r: "48 \<le> (of_char c :: nat) \<and> (of_char c :: nat) \<le> 57"
    using assms by (simp add: radix_digit_10)
  show "\<not> is_whitespace c" using r by (simp add: is_whitespace_def Let_def)
  show "c \<noteq> CHR ''+''" using r by auto
  show "c \<noteq> CHR ''-''" using r by auto
  show "c \<noteq> CHR ''x''" using r by auto
  show "c \<noteq> CHR ''X''" using r by auto
qed

lemma takeWhile_all: "list_all P z \<Longrightarrow> takeWhile P z = z"
  by (induction z) auto

lemma parseInt_decimal:
  assumes "is_decimal z"
  shows "parseInt z = Number (int (digits_value 10 z))"
proof -
  obtain c cs where z: "z = c # cs" and c: "radix_digit 10 c" and cs: "list_all (radix_digit 10) cs"
    using assms by (cases z) (auto simp: is_decimal_def)
  have d: "dropWhile is_whitespace z = z"
    using decimal_digit_plain(1)[OF c] by (simp add: z)
  have h: "hd z \<noteq> CHR ''+''" "hd z \<noteq> CHR ''-''"
    using decimal_digit_plain(2,3)[OF c] by (simp_all add: z)
  have x: "\<not> prefix ''0x'' z" "\<not> prefix ''0X'' z"
  proof -
    show "\<not> prefix ''0x'' z"
    proof
      assume "prefix ''0x'' z"
      then obtain r where "cs = CHR ''x'' # r" by (auto simp: z prefix_def)
      then have "radix_digit 10 (CHR ''x'')" using cs by simp
      then show False using decimal_digit_plain(4) by blast
    qed
    show "\<not> prefix ''0X'' z"
    proof
      assume "prefix ''0X'' z"
      then obtain r where "cs = CHR ''X'' # r" by (auto simp: z prefix_def)
      then have "radix_digit 10 (CHR ''X'')" using cs by simp
      then show False using decimal_digit_plain(5) by blast
    qed
  qed
  have t: "takeWhile (radix_digit 10) z = z"
    using c cs by (simp add: z takeWhile_all)
  have n: "z \<noteq> []" by (simp add: z)
  show ?thesis
    unfolding parseInt_def Let_def d using h x n by (simp add: t)
qed

lemma timer_delay_decimal:
  "is_decimal z \<Longrightarrow> timer_delay (Some z) = Number (int (digits_value 10 z) * 1000)"
  by (auto simp: timer_delay_def parseInt_decimal is_decimal_def)

lemma makeApiRequest_rate_limited:
  "rate_limited a \<Longrightarrow>
   makeApiRequest ep (a # rest)
     = (fst (makeApiRequest ep rest), retry_delay a # snd (makeApiRequest ep rest))"
  by (cases a) (auto simp: Let_def)

lemma makeApiRequest_settles:
  "\<not> rate_limited a \<Longrightarrow> makeApiRequest ep (a # rest) = makeApiRequest ep [a]"
  by (cases a) (auto simp: Let_def split: sum.split)

lemma makeApiRequest_single:
  "\<not> rate_limited a \<Longrightarrow> \<exists>r. makeApiRequest ep [a] = (Some r, [])"
  by (cases a) (auto simp: Let_def split: sum.split)

lemma makeApiRequest_retries:
  "list_all rate_limited limited \<Longrightarrow> \<not> rate_limited a \<Longrightarrow>
   makeApiRequest ep (limited @ a # rest) = (fst (makeApiRequest ep [a]), map retry_delay limited)"
proof (induction limited)
  case Nil
  obtain r where "makeApiRequest ep [a] = (Some r, [])"
    using makeApiRequest_single[OF Nil(2)] by blast
  then show ?case using makeApiRequest_settles[OF Nil(2), of ep rest] by simp
next
  case (Cons l limited)
  then show ?case by (simp add: makeApiRequest_rate_limited)
qed

lemma makeApiRequest_unsettled:
  "list_all rate_limited limited \<Longrightarrow> makeApiRequest ep limited = (None, map retry_delay limited)"
  by (induction limited) (simp_all add: makeApiRequest_rate_limited)

lemmas parseInt_eval =
  parseInt_def is_whitespace_def radix_digit_def digit_value_def digits_value_def timer_delay_def
  Let_def

text \<open>
  Claim C9 says that a request answered with 429 is retried exactly once and that a failure
  is surfaced if that single retry fails. The code retries after every 429: here the first
  two attempts are answered with 429 and the third with 200; the call sets two timers (of
  1000 and 2000 ms), retries twice and returns the data of the third attempt.
\<close>

theorem makeApiRequest_retry_once_counterexample:
  "makeApiRequest ''product/3017620422003.json''
     [HttpResponse 429 ''Too Many Requests'' (Some ''1'') (Inl (JsOtherError ''Unexpected token'')),
      HttpResponse 429 ''Too Many Requests'' (Some ''2'') (Inl (JsOtherError ''Unexpected token'')),
      HttpResponse 200 ''OK'' None (Inr ''data'')]
     = (Some (Inr ''data''), [Number 1000, Number 2000])
   \<and> length (snd (makeApiRequest ''product/3017620422003.json''
        [HttpResponse 429 ''Too Many Requests'' (Some ''1'') (Inl (JsOtherError ''Unexpected token'')),
         HttpResponse 429 ''Too Many Requests'' (Some ''2'') (Inl (JsOtherError ''Unexpected token'')),
         HttpResponse 200 ''OK'' None (Inr ''data'')])) \<noteq> 1"
  by (simp add: parseInt_eval)

text \<open>
  Claim C9, amended. After every 429 response the client sets a timer of
  \<open>parseInt(Retry-After) * 1000\<close> milliseconds and then repeats the request, with no bound on
  the number of retries. The timer is the server-supplied number of seconds when the header
  is a decimal number (of a size that a JavaScript number holds exactly in milliseconds),
  and 5 seconds when the header is missing or empty; for a header that
  \<open>parseInt\<close> cannot read (an HTTP date) the delay is \<open>NaN\<close>, and for a negative number it is
  negative, so that no wait is effective. When the attempts meet the rate-limit responses
  \<open>limited\<close> and then an attempt \<open>a\<close> that is not a 429, the call settles with the outcome
  of \<open>a\<close> alone after one timer per 429, so a failure is surfaced only by an attempt that
  fails otherwise than with 429; with one 429 that is one timer and one retry; and as long
  as every attempt meets a 429 the call does not settle.
\<close>

theorem makeApiRequest_retries_every_429:
  "(list_all rate_limited limited \<and> \<not> rate_limited a \<longrightarrow>
      makeApiRequest ep (limited @ a # rest) = (fst (makeApiRequest ep [a]), map retry_delay limited)
      \<and> (\<exists>r. fst (makeApiRequest ep [a]) = Some r))
   \<and> (rate_limited l \<and> \<not> rate_limited a \<longrightarrow>
      makeApiRequest ep (l # a # rest) = (fst (makeApiRequest ep [a]), [retry_delay l]))
   \<and> (list_all rate_limited limited \<longrightarrow>
      makeApiRequest ep limited = (None, map retry_delay limited))
   \<and> retry_delay (HttpResponse 429 statusText header json)
       = (case header of
            None \<Rightarrow> Number 5000
          | Some h \<Rightarrow> if h = [] then Number 5000 else js_times (parseInt h) 1000)
   \<and> (is_decimal z \<and> int (digits_value 10 z) * 1000 \<le> 2 ^ 53 \<longrightarrow>
        retry_delay (HttpResponse 429 statusText (Some z) json)
          = Number (int (digits_value 10 z) * 1000))"
proof (intro conjI impI)
  assume h: "list_all rate_limited limited \<and> \<not> rate_limited a"
  then show "makeApiRequest ep (limited @ a # rest)
      = (fst (makeApiRequest ep [a]), map retry_delay limited)"
    by (simp add: makeApiRequest_retries)
  show "\<exists>r. fst (makeApiRequest ep [a]) = Some r"
    using makeApiRequest_single[of a ep] h by auto
next
  assume h: "rate_limited l \<and> \<not> rate_limited a"
  then show "makeApiRequest ep (l # a # rest) = (fst (makeApiRequest ep [a]), [retry_delay l])"
    using makeApiRequest_retries[of "[l]" a ep rest] by simp
next
  assume "list_all rate_limited limited"
  then show "makeApiRequest ep limited = (None, map retry_delay limited)"
    by (rule makeApiRequest_unsettled)
next
  show "retry_delay (HttpResponse 429 statusText header json)
       = (case header of
            None \<Rightarrow> Number 5000
          | Some h \<Rightarrow> if h = [] then Number 5000 else js_times (parseInt h) 1000)"
    by (simp add: timer_delay_def split: option.split)
next
  assume "is_decimal z \<and> int (digits_value 10 z) * 1000 \<le> 2 ^ 53"
  then show "retry_delay (HttpResponse 429 statusText (Some z) json)
          = Number (int (digits_value 10 z) * 1000)"
    by (simp add: timer_delay_decimal)
qed

text \<open>
  Three rate-limit responses, with the headers \<open>3\<close>, none and an HTTP date, followed by a 503:
  the timers are 3000 ms, 5000 ms and \<open>NaN\<close>, and the call fails with the error of the 503.
  One 429 followed by a 200: one timer, one retry, the data. Rate-limit responses only: the
  call has not settled.
\<close>

theorem makeApiRequest_retries_every_429_witness:
  "list_all rate_limited
     [HttpResponse 429 ''Too Many Requests'' (Some ''3'') (Inl (JsOtherError ''no body'')),
      HttpResponse 429 ''Too Many Requests'' None (Inl (JsOtherError ''no body'')),
      HttpResponse 429 ''Too Many Requests'' (Some ''Wed, 21 Oct 2015 07:28:00 GMT'')
        (Inl (JsOtherError ''no body'') :: JsError + string)]
   \<and> \<not> rate_limited (HttpResponse 503 ''Service Unavailable'' None
          (Inl (JsOtherError ''no body'') :: JsError + string))
   \<and> makeApiRequest ''product/3017620422003.json''
        [HttpResponse 429 ''Too Many Requests'' (Some ''3'') (Inl (JsOtherError ''no body'')),
         HttpResponse 429 ''Too Many Requests'' None (Inl (JsOtherError ''no body'')),
         HttpResponse 429 ''Too Many Requests'' (Some ''Wed, 21 Oct 2015 07:28:00 GMT'')
           (Inl (JsOtherError ''no body'')),
         HttpResponse 503 ''Service Unavailable'' None (Inl (JsOtherError ''no body'')),
         HttpResponse 200 ''OK'' None (Inr ''late'')]
       = (Some (Inl (Throw NetworkError ''API server error: Service Unavailable'')),
          [Number 3000, Number 5000, NaN])
   \<and> makeApiRequest ''product/3017620422003.json''
        [HttpResponse 429 ''Too Many Requests'' (Some ''3'') (Inl (JsOtherError ''no body'')),
         HttpResponse 200 ''OK'' None (Inr ''data'')]
       = (Some (Inr ''data''), [Number 3000])
   \<and> makeApiRequest ''product/3017620422003.json''
        [HttpResponse 429 ''Too Many Requests'' (Some ''3'') (Inl (JsOtherError ''no body'')),
         HttpResponse 429 ''Too Many Requests'' (Some ''-7'')
           (Inl (JsOtherError ''no body'') :: JsError + string)]
       = (None, [Number 3000, Number (- 7000)])
   \<and> is_decimal ''120''
   \<and> int (digits_value 10 ''120'') * 1000 \<le> 2 ^ 53
   \<and> retry_delay (HttpResponse 429 ''Too Many Requests'' (Some ''120'')
          (Inl (JsOtherError ''no body'') :: JsError + string)) = Number 120000"
proof -
  let ?a = "HttpResponse 429 ''Too Many Requests'' (Some ''3'') (Inl (JsOtherError ''no body'')) :: string Attempt"
  let ?b = "HttpResponse 429 ''Too Many Requests'' None (Inl (JsOtherError ''no body'')) :: string Attempt"
  let ?c = "HttpResponse 429 ''Too Many Requests'' (Some ''Wed, 21 Oct 2015 07:28:00 GMT'')
              (Inl (JsOtherError ''no body'')) :: string Attempt"
  let ?n = "HttpResponse 429 ''Too Many Requests'' (Some ''-7'') (Inl (JsOtherError ''no body'')) :: string Attempt"
  let ?e = "HttpResponse 503 ''Service Unavailable'' None (Inl (JsOtherError ''no body'')) :: string Attempt"
  let ?ok = "HttpResponse 200 ''OK'' None (Inr ''data'') :: string Attempt"
  let ?ep = "''product/3017620422003.json''"
  have lim: "list_all rate_limited [?a, ?b, ?c]" "list_all rate_limited [?a, ?n]" "rate_limited ?a"
    by simp_all
  have non: "\<not> rate_limited ?e" "\<not> rate_limited ?ok"
    by simp_all
  have dec: "is_decimal ''120''"
    by (simp add: is_decimal_def radix_digit_def digit_value_def)
  have delays: "retry_delay ?a = Number 3000" "retry_delay ?b = Number 5000" "retry_delay ?c = NaN"
    "retry_delay ?n = Number (- 7000)"
    by (simp_all add: parseInt_eval)
  have val: "digits_value 10 ''120'' = 120"
    by (simp add: digits_value_def digit_value_def)
  have bound: "int (digits_value 10 ''120'') * 1000 \<le> 2 ^ 53"
    unfolding val by simp
  have single: "fst (makeApiRequest ?ep [?e])
      = Some (Inl (Throw NetworkError ''API server error: Service Unavailable''))"
    "fst (makeApiRequest ?ep [?ok]) = Some (Inr ''data'')"
    by simp_all
  have w1: "makeApiRequest ?ep ([?a, ?b, ?c] @ ?e # [HttpResponse 200 ''OK'' None (Inr ''late'')])
      = (fst (makeApiRequest ?ep [?e]), map retry_delay [?a, ?b, ?c])"
    using makeApiRequest_retries_every_429[of "[?a, ?b, ?c]" ?e ?ep] lim(1) non(1) by blast
  have w2: "makeApiRequest ?ep (?a # ?ok # []) = (fst (makeApiRequest ?ep [?ok]), [retry_delay ?a])"
    using makeApiRequest_retries_every_429[of _ ?ok ?ep _ ?a] lim(3) non(2) by blast
  have w3: "makeApiRequest ?ep [?a, ?n] = (None, map retry_delay [?a, ?n])"
    using makeApiRequest_retries_every_429[of "[?a, ?n]" _ ?ep] lim(2) by blast
  have w4: "retry_delay (HttpResponse 429 ''Too Many Requests'' (Some ''120'')
          (Inl (JsOtherError ''no body'') :: JsError + string))
      = Number (int (digits_value 10 ''120'') * 1000)"
    using makeApiRequest_retries_every_429[of _ _ _ _ _ _ _ _ "''120''"] dec bound by blast
  show ?thesis
    using lim(1) non(1) dec bound w1 w2 w3 w4
    by (simp add: delays val single del: makeApiRequest.simps retry_delay.simps rate_limited.simps)
qed

section \<open>Properties of the retry backoff\<close>

lemma backoff_uncapped_bounds:
  assumes "0 \<le> u" "u < 1"
  shows "800 * 2 ^ r \<le> INITIAL_RETRY_DELAY * 2 ^ r * (0.8 + u * 0.4)"
    and "INITIAL_RETRY_DELAY * 2 ^ r * (0.8 + u * 0.4) < 1200 * (2::real) ^ r"
proof -
  have p: "(0::real) < 2 ^ r" by simp
  have "(0.8::real) \<le> 0.8 + u * 0.4" using assms by simp
  then have "2 ^ r * (0.8::real) \<le> 2 ^ r * (0.8 + u * 0.4)"
    using p by (simp only: mult_le_cancel_left_pos)
  then show "800 * 2 ^ r \<le> INITIAL_RETRY_DELAY * 2 ^ r * (0.8 + u * 0.4)"
    by (simp add: INITIAL_RETRY_DELAY_def)
  have "0.8 + u * 0.4 < (1.2::real)" using assms by simp
  then have "2 ^ r * (0.8 + u * 0.4) < 2 ^ r * (1.2::real)"
    using p by (simp only: mult_less_cancel_left_pos)
  then show "INITIAL_RETRY_DELAY * 2 ^ r * (0.8 + u * 0.4) < 1200 * (2::real) ^ r"
    by (simp add: INITIAL_RETRY_DELAY_def)
qed

lemma backoff_growth:
  assumes "0 \<le> u" "u < 1" "0 \<le> v" "v < 1"
  shows "min (calculateBackoffDelay u r * (4 / 3)) MAX_RETRY_DELAY \<le> calculateBackoffDelay v (Suc r)"
proof -
  define a where "a = INITIAL_RETRY_DELAY * 2 ^ r * (0.8 + u * 0.4)"
  define b where "b = INITIAL_RETRY_DELAY * 2 ^ Suc r * (0.8 + v * 0.4)"
  define p where "p = (2::real) ^ r"
  have a: "a < 1200 * p"
    unfolding a_def p_def using backoff_uncapped_bounds(2)[OF assms(1,2)] .
  have "800 * 2 ^ Suc r \<le> b"
    unfolding b_def using backoff_uncapped_bounds(1)[OF assms(3,4)] .
  then have b: "1600 * p \<le> b"
    unfolding p_def by simp
  have ab: "a * (4 / 3) \<le> b" using a b by linarith
  have "calculateBackoffDelay u r \<le> a"
    unfolding a_def calculateBackoffDelay_def by (rule min.cobounded1)
  then have "calculateBackoffDelay u r * (4 / 3) \<le> b" using ab by linarith
  moreover have "calculateBackoffDelay v (Suc r) = min b MAX_RETRY_DELAY"
    unfolding b_def calculateBackoffDelay_def ..
  ultimately show ?thesis by (simp add: min_def)
qed

lemma backoff_stays_capped:
  assumes "0 \<le> u" "u < 1" "0 \<le> v" "v < 1"
    and "calculateBackoffDelay u r = MAX_RETRY_DELAY"
  shows "calculateBackoffDelay v (Suc r) = MAX_RETRY_DELAY"
proof -
  have "min (MAX_RETRY_DELAY * (4 / 3)) MAX_RETRY_DELAY \<le> calculateBackoffDelay v (Suc r)"
    using backoff_growth[OF assms(1-4), of r] assms(5) by simp
  then have "MAX_RETRY_DELAY \<le> calculateBackoffDelay v (Suc r)"
    by (simp add: MAX_RETRY_DELAY_def)
  moreover have "calculateBackoffDelay v (Suc r) \<le> MAX_RETRY_DELAY"
    by (simp add: calculateBackoffDelay_def)
  ultimately show ?thesis by simp
qed

text \<open>
  Claim C3 says that with any two jitter draws the next delay is at least 1.6 times the
  delay before it until the maximum is reached. With the draw 0.75 (jitter 1.1) at retry 0
  and the draw 0 (jitter 0.8) at retry 1 the delays are 1100 and 1600, both below the
  maximum, and 1600 is less than 1.6 times 1100.
\<close>

theorem backoff_factor_counterexample:
  "calculateBackoffDelay (3 / 4) 0 = 1100
   \<and> calculateBackoffDelay 0 1 = 1600
   \<and> calculateBackoffDelay 0 1 < MAX_RETRY_DELAY
   \<and> \<not> calculateBackoffDelay 0 1 \<ge> calculateBackoffDelay (3 / 4) 0 * 1.6"
  by (simp add: calculateBackoffDelay_def INITIAL_RETRY_DELAY_def MAX_RETRY_DELAY_def)

text \<open>
  Claim C3, amended. For every retry count and every pair of jitter draws within the
  bounds (\<open>Math.random()\<close> from 0 up to 1, jitter from 0.8 up to 1.2) the next delay is at
  least 4/3 times the delay before it, or the maximum if that is smaller; and once a delay
  is the maximum of 3,600,000 ms the next delay is the maximum too.
\<close>

theorem backoff_monotone:
  "0 \<le> u \<and> u < 1 \<and> 0 \<le> v \<and> v < 1 \<longrightarrow>
     min (calculateBackoffDelay u r * (4 / 3)) MAX_RETRY_DELAY \<le> calculateBackoffDelay v (Suc r)
     \<and> (calculateBackoffDelay v (Suc r) < MAX_RETRY_DELAY \<longrightarrow>
          calculateBackoffDelay u r * (4 / 3) \<le> calculateBackoffDelay v (Suc r))
     \<and> (calculateBackoffDelay u r = MAX_RETRY_DELAY \<longrightarrow>
          calculateBackoffDelay v (Suc r) = MAX_RETRY_DELAY)
     \<and> MAX_RETRY_DELAY = 3600000"
proof (intro impI conjI)
  assume h: "0 \<le> u \<and> u < 1 \<and> 0 \<le> v \<and> v < 1"
  then show g: "min (calculateBackoffDelay u r * (4 / 3)) MAX_RETRY_DELAY \<le> calculateBackoffDelay v (Suc r)"
    using backoff_growth[of u v r] by simp
  show "calculateBackoffDelay u r * (4 / 3) \<le> calculateBackoffDelay v (Suc r)"
    if "calculateBackoffDelay v (Suc r) < MAX_RETRY_DELAY"
    using g that by (simp add: min_def split: if_splits)
  show "calculateBackoffDelay v (Suc r) = MAX_RETRY_DELAY"
    if "calculateBackoffDelay u r = MAX_RETRY_DELAY"
    using backoff_stays_capped[of u v r] h that by simp
  show "MAX_RETRY_DELAY = 3600000" by (simp add: MAX_RETRY_DELAY_def)
qed

theorem backoff_monotone_witness:
  "(0::real) \<le> 3 / 4 \<and> (3 / 4 :: real) < 1 \<and> (0::real) \<le> 0 \<and> (0::real) < 1
   \<and> calculateBackoffDelay (3 / 4) 0 = 1100 \<and> calculateBackoffDelay 0 (Suc 0) = 1600
   \<and> min (calculateBackoffDelay (3 / 4) 0 * (4 / 3)) MAX_RETRY_DELAY \<le> calculateBackoffDelay 0 (Suc 0)
   \<and> calculateBackoffDelay (3 / 4) 12 = MAX_RETRY_DELAY
   \<and> calculateBackoffDelay 0 (Suc 12) = MAX_RETRY_DELAY"
proof -
  have h: "(0::real) \<le> 3 / 4 \<and> (3 / 4 :: real) < 1 \<and> (0::real) \<le> 0 \<and> (0::real) < 1"
    by simp
  have e1: "calculateBackoffDelay (3 / 4) 0 = 1100"
    by (simp add: calculateBackoffDelay_def INITIAL_RETRY_DELAY_def MAX_RETRY_DELAY_def)
  have e2: "calculateBackoffDelay 0 (Suc 0) = 1600"
    by (simp add: calculateBackoffDelay_def INITIAL_RETRY_DELAY_def MAX_RETRY_DELAY_def)
  have e3: "calculateBackoffDelay (3 / 4) 12 = MAX_RETRY_DELAY"
    by (simp add: calculateBackoffDelay_def INITIAL_RETRY_DELAY_def MAX_RETRY_DELAY_def)
  have c1: "min (calculateBackoffDelay (3 / 4) 0 * (4 / 3)) MAX_RETRY_DELAY
              \<le> calculateBackoffDelay 0 (Suc 0)"
    using backoff_monotone[of "3 / 4" 0 0] h by blast
  have c2: "calculateBackoffDelay 0 (Suc 12) = MAX_RETRY_DELAY"
    using backoff_monotone[of "3 / 4" 0 12] h e3 by blast
  show ?thesis
    using h e1 e2 e3 c1 c2 by blast
qed


section \<open>Properties of the size budget\<close>

lemma getItem_multiRemove:
  "getItem (multiRemove ks st) k = (if k \<in> set ks then None else getItem st k)"
proof (induction ks arbitrary: st)
  case Nil
  show ?case by simp
next
  case (Cons key ks)
  show ?case
    using Cons[of "removeItem key st"]
    by (auto simp: getItem_removeItem_same getItem_removeItem_other)
qed

lemma timestamped_item_has_timestamp:
  assumes "(k, t) \<in> set (timestamped_items jt st)"
  shows "\<exists>v. getItem st k = Some v \<and> v \<noteq> [] \<and> jt v = Some t \<and> t \<noteq> 0"
proof -
  from assms obtain key where
    "(k, t) \<in> set (case getItem st key of
                        None \<Rightarrow> []
                      | Some v \<Rightarrow>
                          if v = [] then []
                          else (case jt v of
                                  None \<Rightarrow> []
                                | Some t \<Rightarrow> if t \<noteq> 0 then [(key, t)] else []))"
    unfolding timestamped_items_def by auto
  then show ?thesis
    by (cases "getItem st key") (auto split: if_splits option.splits)
qed

lemma set_sorted_items: "set (sorted_items jt st) = set (timestamped_items jt st)"
  by (simp add: sorted_items_def)

lemma length_sorted_items: "length (sorted_items jt st) = length (timestamped_items jt st)"
  by (simp add: sorted_items_def)

lemma sorted_sorted_items: "sorted (map snd (sorted_items jt st))"
  by (simp add: sorted_items_def)

lemma keysToRemove_timestamped:
  assumes "k \<in> set (keysToRemove jt st)"
  shows "\<exists>v t. getItem st k = Some v \<and> v \<noteq> [] \<and> jt v = Some t \<and> t \<noteq> 0"
proof -
  from assms obtain t where "(k, t) \<in> set (take (itemsToRemove jt st) (sorted_items jt st))"
    by (auto simp: keysToRemove_def)
  then have "(k, t) \<in> set (timestamped_items jt st)"
    using set_sorted_items[of jt st] by (auto dest: in_set_takeD)
  then show ?thesis
    using timestamped_item_has_timestamp by blast
qed

lemma oldest_first:
  assumes "i < itemsToRemove jt st" "itemsToRemove jt st \<le> j" "j < length (sorted_items jt st)"
  shows "snd (sorted_items jt st ! i) \<le> snd (sorted_items jt st ! j)"
proof -
  have "i \<le> j" using assms by simp
  then have "map snd (sorted_items jt st) ! i \<le> map snd (sorted_items jt st) ! j"
    using sorted_sorted_items[of jt st] assms(3) by (simp add: sorted_iff_nth_mono del: nth_map)
  then show ?thesis using assms by simp
qed

lemma length_keysToRemove:
  "length (keysToRemove jt st) = (length (timestamped_items jt st) + 4) div 5"
proof -
  have "itemsToRemove jt st \<le> length (sorted_items jt st)"
    by (simp add: itemsToRemove_def)
  then show ?thesis
    by (simp add: keysToRemove_def itemsToRemove_def length_sorted_items)
qed

lemma length_text_of_length: "length (text_of_length n) = n"
  by (simp add: text_of_length_def)

lemma text_of_length_Nil: "text_of_length n = [] \<longleftrightarrow> n = 0"
  by (simp add: text_of_length_def)

lemma map_of_put_same: "map_of (put k v es) k = Some v"
  by (induction es) auto

lemma getItem_store_setItem:
  "val \<noteq> [] \<Longrightarrow> getItem (store_setItem key val st) key = Some val"
  by (simp add: getItem_def store_setItem_def map_of_put_same)

lemmas storage_eval =
  getSize_def item_size_def getItem_def getAllKeys_def STORAGE_PREFIX_def STORAGE_SIZE_LIMIT_def
  store_setItem_def removeItem_def cleanupOldItems_def keysToRemove_def itemsToRemove_def
  sorted_items_def timestamped_items_def length_text_of_length text_of_length_Nil

text \<open>
  Claim C8 says that the eviction pass runs when the write would push the combined key and
  value size over the budget, and that the error is raised only if the write would still
  exceed the budget after the pass. The code compares \<open>getSize() + value.length\<close> with the
  budget: the size of the entry that the write replaces is still counted, and the length of
  a new key is not. Rewriting the 6,000,000 character value of the only entry with a value
  of the same length would leave 6,000,021 characters, within the budget, and the code
  raises the error. Writing a one-character value under a new key to a storage of
  10,485,759 characters leaves 10,485,767, over the budget, and the code neither evicts
  the (timestamped) entry nor raises the error.
\<close>

theorem setItem_budget_counterexample:
  "fst (setItem (\<lambda>v. None) ''scani_operation_queue'' (text_of_length 6000000) queue_storage)
     = Some (Throw StorageError ''Storage size limit exceeded'')
   \<and> getSize (store_setItem ''scani_operation_queue'' (text_of_length 6000000)
        (cleanupOldItems (\<lambda>v. None) queue_storage)) = 6000021
   \<and> \<not> STORAGE_SIZE_LIMIT < 6000021
   \<and> setItem (\<lambda>v. Some 1) ''scani_b'' ''y'' brim_storage
       = (None, \<lparr>backend = LocalStorage,
                 entries = [(''scani_a'', text_of_length 10485752), (''scani_b'', ''y'')]\<rparr>)
   \<and> getSize (store_setItem ''scani_b'' ''y'' brim_storage) = 10485767
   \<and> STORAGE_SIZE_LIMIT < 10485767"
  by (simp add: setItem_def queue_storage_def brim_storage_def storage_eval)

text \<open>
  Claim C8, amended. \<open>set\<close> measures a write as \<open>getSize() + value.length\<close>, the combined key
  and value size of the stored entries plus the length of the new value (the new key is not
  counted, and an entry that the write replaces still is). When that is within the 10 MiB
  budget the write succeeds at once. When it is over the budget, the eviction pass runs and
  the same measure is taken once more: the error is raised if it is still over the budget,
  leaving the storage as the pass left it, and otherwise the write succeeds. The pass
  removes the first fifth (rounded up) of the entries that carry a timestamp, in the order
  of their timestamps, oldest first; entries without a parseable timestamp stay.
\<close>

theorem setItem_budget:
  "(getSize st + length val \<le> STORAGE_SIZE_LIMIT \<longrightarrow>
      setItem jt key val st = (None, store_setItem key val st))
   \<and> (STORAGE_SIZE_LIMIT < getSize st + length val \<longrightarrow>
      setItem jt key val st =
        (if STORAGE_SIZE_LIMIT < getSize (cleanupOldItems jt st) + length val
         then (Some (Throw StorageError ''Storage size limit exceeded''), cleanupOldItems jt st)
         else (None, store_setItem key val (cleanupOldItems jt st))))
   \<and> (val \<noteq> [] \<longrightarrow> getItem (store_setItem key val st) key = Some val)
   \<and> (\<forall>k. getItem (cleanupOldItems jt st) k
            = (if k \<in> set (keysToRemove jt st) then None else getItem st k))
   \<and> (\<forall>k \<in> set (keysToRemove jt st).
          \<exists>v t. getItem st k = Some v \<and> v \<noteq> [] \<and> jt v = Some t \<and> t \<noteq> 0)
   \<and> length (keysToRemove jt st) = (length (timestamped_items jt st) + 4) div 5
   \<and> keysToRemove jt st = map fst (take (itemsToRemove jt st) (sorted_items jt st))
   \<and> (\<forall>i j. i < itemsToRemove jt st \<and> itemsToRemove jt st \<le> j
               \<and> j < length (sorted_items jt st) \<longrightarrow>
             snd (sorted_items jt st ! i) \<le> snd (sorted_items jt st ! j))
   \<and> STORAGE_SIZE_LIMIT = 10485760"
proof (intro conjI)
  show "getSize st + length val \<le> STORAGE_SIZE_LIMIT \<longrightarrow>
      setItem jt key val st = (None, store_setItem key val st)"
    by (simp add: setItem_def)
  show "STORAGE_SIZE_LIMIT < getSize st + length val \<longrightarrow>
      setItem jt key val st =
        (if STORAGE_SIZE_LIMIT < getSize (cleanupOldItems jt st) + length val
         then (Some (Throw StorageError ''Storage size limit exceeded''), cleanupOldItems jt st)
         else (None, store_setItem key val (cleanupOldItems jt st)))"
    by (simp add: setItem_def Let_def)
  show "val \<noteq> [] \<longrightarrow> getItem (store_setItem key val st) key = Some val"
    by (simp add: getItem_store_setItem)
  show "\<forall>k. getItem (cleanupOldItems jt st) k
            = (if k \<in> set (keysToRemove jt st) then None else getItem st k)"
    by (simp add: cleanupOldItems_def getItem_multiRemove)
  show "\<forall>k \<in> set (keysToRemove jt st).
          \<exists>v t. getItem st k = Some v \<and> v \<noteq> [] \<and> jt v = Some t \<and> t \<noteq> 0"
    using keysToRemove_timestamped by blast
  show "length (keysToRemove jt st) = (length (timestamped_items jt st) + 4) div 5"
    by (rule length_keysToRemove)
  show "keysToRemove jt st = map fst (take (itemsToRemove jt st) (sorted_items jt st))"
    by (rule keysToRemove_def)
  show "\<forall>i j. i < itemsToRemove jt st \<and> itemsToRemove jt st \<le> j
               \<and> j < length (sorted_items jt st) \<longrightarrow>
             snd (sorted_items jt st ! i) \<le> snd (sorted_items jt st ! j)"
    using oldest_first by blast
  show "STORAGE_SIZE_LIMIT = 10485760"
    by (simp add: STORAGE_SIZE_LIMIT_def)
qed

text \<open>
  Scenario E on a storage of 10,000,047 characters: a write of 600,000 characters is over
  the budget, the pass evicts the older of the two timestamped entries and the write
  succeeds; a write of 6,000,000 characters is still over the budget after the pass and the
  error is raised.
\<close>

theorem setItem_budget_witness:
  "STORAGE_SIZE_LIMIT < getSize full_storage + length (text_of_length 600000)
   \<and> keysToRemove example_timestamp full_storage = [''scani_product_2'']
   \<and> setItem example_timestamp ''scani_product_3'' (text_of_length 600000) full_storage
       = (None, \<lparr>backend = LocalStorage,
                 entries = [(''scani_product_1'', text_of_length 4000000),
                            (''scani_credentials'', text_of_length 1000000),
                            (''scani_product_3'', text_of_length 600000)]\<rparr>)
   \<and> setItem example_timestamp ''scani_product_3'' (text_of_length 6000000) full_storage
       = (Some (Throw StorageError ''Storage size limit exceeded''),
          \<lparr>backend = LocalStorage,
           entries = [(''scani_product_1'', text_of_length 4000000),
                      (''scani_credentials'', text_of_length 1000000)]\<rparr>)
   \<and> setItem example_timestamp ''scani_b'' (text_of_length 1) brim_storage
       = (None, \<lparr>backend = LocalStorage,
                 entries = [(''scani_a'', text_of_length 10485752),
                            (''scani_b'', text_of_length 1)]\<rparr>)"
proof -
  have over: "STORAGE_SIZE_LIMIT < getSize full_storage + length (text_of_length 600000)"
    by (simp add: full_storage_def storage_eval)
  have over': "STORAGE_SIZE_LIMIT < getSize full_storage + length (text_of_length 6000000)"
    by (simp add: full_storage_def storage_eval)
  have keys: "keysToRemove example_timestamp full_storage = [''scani_product_2'']"
    by (simp add: full_storage_def example_timestamp_def storage_eval)
  have evicted: "cleanupOldItems example_timestamp full_storage
      = \<lparr>backend = LocalStorage,
         entries = [(''scani_product_1'', text_of_length 4000000),
                    (''scani_credentials'', text_of_length 1000000)]\<rparr>"
    by (simp add: cleanupOldItems_def keys) (simp add: full_storage_def removeItem_def)
  have fits: "\<not> STORAGE_SIZE_LIMIT
      < getSize (cleanupOldItems example_timestamp full_storage) + length (text_of_length 600000)"
    unfolding evicted by (simp add: storage_eval)
  have still: "STORAGE_SIZE_LIMIT
      < getSize (cleanupOldItems example_timestamp full_storage) + length (text_of_length 6000000)"
    unfolding evicted by (simp add: storage_eval)
  have room: "getSize brim_storage + length (text_of_length 1) \<le> STORAGE_SIZE_LIMIT"
    by (simp add: brim_storage_def storage_eval)
  have w1: "setItem example_timestamp ''scani_product_3'' (text_of_length 600000) full_storage
      = (None, store_setItem ''scani_product_3'' (text_of_length 600000)
                 (cleanupOldItems example_timestamp full_storage))"
    using setItem_budget[of full_storage "text_of_length 600000" example_timestamp
            "''scani_product_3''"] over fits
    by presburger
  have w2: "setItem example_timestamp ''scani_product_3'' (text_of_length 6000000) full_storage
      = (Some (Throw StorageError ''Storage size limit exceeded''),
         cleanupOldItems example_timestamp full_storage)"
    using setItem_budget[of full_storage "text_of_length 6000000" example_timestamp
            "''scani_product_3''"] over' still
    by presburger
  have w3: "setItem example_timestamp ''scani_b'' (text_of_length 1) brim_storage
      = (None, store_setItem ''scani_b'' (text_of_length 1) brim_storage)"
    using setItem_budget[of brim_storage "text_of_length 1" example_timestamp "''scani_b''"] room
    by presburger
  show ?thesis
    unfolding w1 w2 w3 evicted using over keys
    by (simp add: store_setItem_def brim_storage_def)
qed


section \<open>Properties of the operation queue\<close>

lemma findIndex_None: "findIndex P xs = None \<longleftrightarrow> (\<forall>x \<in> set xs. \<not> P x)"
  by (induction xs) auto

lemma findIndex_Some:
  "findIndex P xs = Some k \<Longrightarrow> k < length xs \<and> P (xs ! k) \<and> (\<forall>j<k. \<not> P (xs ! j))"
proof (induction xs arbitrary: k)
  case Nil
  then show ?case by simp
next
  case (Cons x xs)
  show ?case
  proof (cases "P x")
    case True
    then show ?thesis using Cons.prems by simp
  next
    case False
    then obtain k' where k': "findIndex P xs = Some k'" "k = Suc k'"
      using Cons.prems by auto
    have ih: "k' < length xs \<and> P (xs ! k') \<and> (\<forall>j<k'. \<not> P (xs ! j))"
      using Cons.IH[OF k'(1)] .
    have "\<not> P ((x # xs) ! j)" if "j < k" for j
      using that False ih k'(2) by (cases j) auto
    then show ?thesis using ih k'(2) by simp
  qed
qed

lemma find_findIndex:
  "find P xs = (case findIndex P xs of None \<Rightarrow> None | Some k \<Rightarrow> Some (xs ! k))"
  by (induction xs) (auto split: option.splits)

lemma queue_saveOperationQueue:
  "queue (saveOperationQueue env q st) = (if storage_accepts env q then q else queue st)"
  by (simp add: saveOperationQueue_def)

lemma queue_notify [simp]: "queue (notifyQueueEventListeners e i st) = queue st"
  by (simp add: notifyQueueEventListeners_def)

lemma running_notify [simp]:
  "queueProcessorRunning (notifyQueueEventListeners e i st) = queueProcessorRunning st"
  by (simp add: notifyQueueEventListeners_def)

lemma running_saveOperationQueue [simp]:
  "queueProcessorRunning (saveOperationQueue env q st) = queueProcessorRunning st"
  by (simp add: saveOperationQueue_def)

lemma updateOperation_missing:
  "findIndex (\<lambda>op. op_id op = i) (queue st) = None \<Longrightarrow> updateOperation env i u st = (None, st)"
  by (simp add: updateOperation_def getOperationQueue_def)

lemma updateOperation_found:
  assumes "findIndex (\<lambda>op. op_id op = i) (queue st) = Some k"
  shows "fst (updateOperation env i u st) = Some ((spread (queue st ! k) u)\<lparr>updatedAt := date_now env\<rparr>)"
    and "queue (snd (updateOperation env i u st))
          = (if storage_accepts env ((queue st)[k := (spread (queue st ! k) u)\<lparr>updatedAt := date_now env\<rparr>])
             then (queue st)[k := (spread (queue st ! k) u)\<lparr>updatedAt := date_now env\<rparr>]
             else queue st)"
    and "queueProcessorRunning (snd (updateOperation env i u st)) = queueProcessorRunning st"
  using assms
  by (simp_all add: updateOperation_def getOperationQueue_def Let_def queue_saveOperationQueue)

lemma running_updateOperation [simp]:
  "queueProcessorRunning (snd (updateOperation env i u st)) = queueProcessorRunning st"
  by (cases "findIndex (\<lambda>op. op_id op = i) (queue st)")
     (simp_all add: updateOperation_missing updateOperation_found(3))

lemma queue_trigger_processing [simp]: "queue (trigger_processing env st) = queue st"
  by (simp add: trigger_processing_def processOperationQueue_enter_def)

section \<open>Single flight\<close>

lemma running_processOperation [simp]:
  "queueProcessorRunning (snd (processOperation env operation st)) = queueProcessorRunning st"
  by (simp add: processOperation_def Let_def split: sum.split)

lemma running_process_loop [simp]:
  "queueProcessorRunning (snd (process_loop force env k ops n st)) = queueProcessorRunning st"
proof (induction ops arbitrary: k n st)
  case Nil
  show ?case by simp
next
  case (Cons operation ops)
  obtain success st' where p: "processOperation env operation st = (success, st')"
    by (cases "processOperation env operation st")
  then have "queueProcessorRunning st' = queueProcessorRunning st"
    using running_processOperation[of env operation st] by simp
  then show ?case
    using Cons[of "Suc k" _ st'] p by simp
qed

lemma pass_clears_flag:
  "\<not> queueProcessorRunning (snd (processOperationQueue_pass force env st))"
  by (simp add: processOperationQueue_pass_def Let_def split: prod.split)

lemma enter_while_running:
  "queueProcessorRunning st \<Longrightarrow> processOperationQueue_enter force env st = Inl 0"
  by (simp add: processOperationQueue_enter_def)

lemma enter_cases:
  "processOperationQueue_enter force env st = Inl 0
   \<or> (\<not> queueProcessorRunning st
       \<and> processOperationQueue_enter force env st
           = Inr (st\<lparr>queueProcessorTimeout := None, queueProcessorRunning := True\<rparr>))"
  by (simp add: processOperationQueue_enter_def)

lemma active_passes_append [simp]:
  "active_passes (calls @ [c]) = active_passes calls + (if is_running c then 1 else 0)"
  by (simp add: active_passes_def)

lemma active_passes_complete:
  assumes "i < length calls" "calls ! i = Running force"
  shows "active_passes calls = Suc (active_passes (calls[i := Done n]))"
  using assms
proof (induction calls arbitrary: i)
  case Nil
  then show ?case by simp
next
  case (Cons c calls)
  show ?case
  proof (cases i)
    case 0
    then show ?thesis using Cons.prems by (simp add: active_passes_def)
  next
    case (Suc j)
    then have "active_passes calls = Suc (active_passes (calls[j := Done n]))"
      using Cons.IH[of j] Cons.prems by simp
    then show ?thesis using Suc by (simp add: active_passes_def)
  qed
qed

lemma perform_flag_counts:
  assumes "flag_counts c"
  shows "flag_counts (perform e c)"
proof -
  obtain st calls where c: "c = (st, calls)" by (cases c)
  show ?thesis
  proof (cases e)
    case (Call force env)
    show ?thesis
      using enter_cases[of force env st] assms
      by (auto simp: c Call flag_counts_def)
  next
    case (Complete i env)
    show ?thesis
    proof (cases "i < length calls")
      case False
      then show ?thesis using assms by (simp add: c Complete)
    next
      case True
      show ?thesis
      proof (cases "calls ! i")
        case (Done n)
        then show ?thesis using assms True by (simp add: c Complete)
      next
        case (Running force)
        obtain n st' where p: "processOperationQueue_pass force env st = (n, st')"
          by (cases "processOperationQueue_pass force env st")
        have off: "\<not> queueProcessorRunning st'"
          using pass_clears_flag[of force env st] p by simp
        have "active_passes calls = Suc (active_passes (calls[i := Done n]))"
          using active_passes_complete[OF True Running] .
        moreover have "active_passes calls \<le> 1"
          using assms by (simp add: c flag_counts_def)
        ultimately have "active_passes (calls[i := Done n]) = 0" by simp
        then show ?thesis
          using True Running p off by (simp add: c Complete flag_counts_def)
      qed
    qed
  qed
qed

lemma run_flag_counts: "flag_counts c \<Longrightarrow> flag_counts (run schedule c)"
  by (induction schedule arbitrary: c) (simp_all add: perform_flag_counts)

text \<open>
  Claim C5. At most one queue-processing pass runs at a time. A call of
  \<open>processOperationQueue\<close> made while the single-flight flag is set returns 0 and leaves the
  state, the queue included, as it is, whatever the queue holds. Under every schedule of
  calls and completions that starts with the flag clear, at most one pass is active, and
  the flag is set exactly while one is. Two calls in a row from an idle state give one
  active pass, and the second call returns 0.
\<close>

theorem single_flight:
  "(queueProcessorRunning st \<longrightarrow> processOperationQueue force env st = (0, st))
   \<and> (\<not> queueProcessorRunning st0 \<and> run schedule (st0, []) = (st1, calls) \<longrightarrow>
        active_passes calls \<le> 1 \<and> (queueProcessorRunning st1 \<longleftrightarrow> active_passes calls = 1))
   \<and> (\<not> queueProcessorRunning st0 \<and> (force \<or> navigator_onLine env) \<longrightarrow>
        run [Call force env, Call force' env'] (st0, [])
          = (st0\<lparr>queueProcessorTimeout := None, queueProcessorRunning := True\<rparr>,
             [Running force, Done 0]))"
proof (intro conjI impI)
  assume "queueProcessorRunning st"
  then show "processOperationQueue force env st = (0, st)"
    by (simp add: processOperationQueue_def enter_while_running)
next
  assume h: "\<not> queueProcessorRunning st0 \<and> run schedule (st0, []) = (st1, calls)"
  have "flag_counts (st0, [])"
    using h by (simp add: flag_counts_def active_passes_def)
  then have "flag_counts (run schedule (st0, []))"
    by (rule run_flag_counts)
  then have c: "active_passes calls = (if queueProcessorRunning st1 then 1 else 0)"
    using h by (simp add: flag_counts_def)
  show "active_passes calls \<le> 1" using c by simp
  show "queueProcessorRunning st1 \<longleftrightarrow> active_passes calls = 1" using c by simp
next
  assume "\<not> queueProcessorRunning st0 \<and> (force \<or> navigator_onLine env)"
  then show "run [Call force env, Call force' env'] (st0, [])
          = (st0\<lparr>queueProcessorTimeout := None, queueProcessorRunning := True\<rparr>,
             [Running force, Done 0])"
    by (auto simp: processOperationQueue_enter_def isNetworkAvailable_def)
qed

theorem single_flight_witness:
  "queueProcessorRunning ((idle_state [submit_operation])\<lparr>queueProcessorRunning := True\<rparr>)
   \<and> processOperationQueue True example_env ((idle_state [submit_operation])\<lparr>queueProcessorRunning := True\<rparr>)
       = (0, (idle_state [submit_operation])\<lparr>queueProcessorRunning := True\<rparr>)
   \<and> \<not> queueProcessorRunning (idle_state [submit_operation])
   \<and> navigator_onLine example_env
   \<and> run [Call False example_env, Call True example_env] (idle_state [submit_operation], [])
       = ((idle_state [submit_operation])\<lparr>queueProcessorTimeout := None, queueProcessorRunning := True\<rparr>,
          [Running False, Done 0])
   \<and> active_passes [Running False, Done 0] \<le> 1"
proof -
  have idle: "\<not> queueProcessorRunning (idle_state [submit_operation])"
    by (simp add: idle_state_def)
  have busy: "queueProcessorRunning ((idle_state [submit_operation])\<lparr>queueProcessorRunning := True\<rparr>)"
    by simp
  have online: "navigator_onLine example_env"
    by (simp add: example_env_def)
  note t = single_flight[of "(idle_state [submit_operation])\<lparr>queueProcessorRunning := True\<rparr>"
              True example_env "idle_state [submit_operation]"
              "[Call False example_env, Call True example_env]"
              "(idle_state [submit_operation])\<lparr>queueProcessorTimeout := None, queueProcessorRunning := True\<rparr>"
              "[Running False, Done 0]"]
  note t' = single_flight[of _ False example_env "idle_state [submit_operation]" _ _ _ True example_env]
  have r: "run [Call False example_env, Call True example_env] (idle_state [submit_operation], [])
       = ((idle_state [submit_operation])\<lparr>queueProcessorTimeout := None, queueProcessorRunning := True\<rparr>,
          [Running False, Done 0])"
    using t' idle online by blast
  have "active_passes [Running False, Done 0] \<le> 1"
    using t idle r by blast
  moreover have "processOperationQueue True example_env ((idle_state [submit_operation])\<lparr>queueProcessorRunning := True\<rparr>)
       = (0, (idle_state [submit_operation])\<lparr>queueProcessorRunning := True\<rparr>)"
    using t busy by blast
  ultimately show ?thesis
    using idle busy online r by blast
qed


section \<open>Retrying a failed operation\<close>

lemma spread_reset:
  "spread operation \<lparr>set_status = Some PENDING, set_retryCount = Some 0,
                      set_nextRetryTime = Some None, set_error = Some None\<rparr>
     = operation\<lparr>status := PENDING, retryCount := 0, nextRetryTime := None, op_error := None\<rparr>"
  by (simp add: spread_def)

lemma retryOperation_null:
  assumes "\<not> (\<exists>operation \<in> set (queue st). op_id operation = i \<and> status operation = FAILED)"
  shows "retryOperation env i st = (None, st)"
proof (cases "find (\<lambda>op. op_id op = i) (queue st)")
  case None
  then show ?thesis by (simp add: retryOperation_def getOperationQueue_def)
next
  case (Some operation)
  then have "operation \<in> set (queue st) \<and> op_id operation = i"
    by (auto simp: find_Some_iff)
  then have "status operation \<noteq> FAILED" using assms by blast
  then show ?thesis using Some by (simp add: retryOperation_def getOperationQueue_def)
qed

lemma retryOperation_reset:
  assumes "findIndex (\<lambda>op. op_id op = i) (queue st) = Some k" "status (queue st ! k) = FAILED"
  shows "fst (retryOperation env i st)
           = Some ((queue st ! k)\<lparr>status := PENDING, retryCount := 0, nextRetryTime := None,
                                   op_error := None, updatedAt := date_now env\<rparr>)"
    and "queue (snd (retryOperation env i st))
           = (if storage_accepts env
                   ((queue st)[k := (queue st ! k)\<lparr>status := PENDING, retryCount := 0,
                        nextRetryTime := None, op_error := None, updatedAt := date_now env\<rparr>])
              then (queue st)[k := (queue st ! k)\<lparr>status := PENDING, retryCount := 0,
                        nextRetryTime := None, op_error := None, updatedAt := date_now env\<rparr>]
              else queue st)"
proof -
  let ?u = "\<lparr>set_status = Some PENDING, set_retryCount = Some 0,
             set_nextRetryTime = Some None, set_error = Some None\<rparr>"
  have f: "find (\<lambda>op. op_id op = i) (queue st) = Some (queue st ! k)"
    using assms(1) by (simp add: find_findIndex)
  obtain r st' where u: "updateOperation env i ?u st = (r, st')"
    by (cases "updateOperation env i ?u st")
  have r: "r = Some ((spread (queue st ! k) ?u)\<lparr>updatedAt := date_now env\<rparr>)"
    using updateOperation_found(1)[OF assms(1), of env ?u] u by simp
  have q: "queue st' =
      (if storage_accepts env ((queue st)[k := (spread (queue st ! k) ?u)\<lparr>updatedAt := date_now env\<rparr>])
       then (queue st)[k := (spread (queue st ! k) ?u)\<lparr>updatedAt := date_now env\<rparr>]
       else queue st)"
    using updateOperation_found(2)[OF assms(1), of env ?u] u by simp
  have res: "retryOperation env i st
      = (r, if isNetworkAvailable env then trigger_processing env st' else st')"
    using f assms(2) u by (simp add: retryOperation_def getOperationQueue_def)
  show "fst (retryOperation env i st)
           = Some ((queue st ! k)\<lparr>status := PENDING, retryCount := 0, nextRetryTime := None,
                                   op_error := None, updatedAt := date_now env\<rparr>)"
    unfolding res r spread_reset by simp
  show "queue (snd (retryOperation env i st))
           = (if storage_accepts env
                   ((queue st)[k := (queue st ! k)\<lparr>status := PENDING, retryCount := 0,
                        nextRetryTime := None, op_error := None, updatedAt := date_now env\<rparr>])
              then (queue st)[k := (queue st ! k)\<lparr>status := PENDING, retryCount := 0,
                        nextRetryTime := None, op_error := None, updatedAt := date_now env\<rparr>]
              else queue st)"
    using q unfolding res spread_reset by simp
qed

text \<open>
  Claim C10. \<open>retryOperation\<close> returns \<open>null\<close> and leaves the persisted queue, and the rest
  of the state, unchanged unless an operation with the id exists whose status is
  \<open>FAILED\<close>. When the operation found under the id (the first with that id) is \<open>FAILED\<close>, the
  call returns it reset to \<open>PENDING\<close> with \<open>retryCount\<close> 0 and with its error and
  \<open>nextRetryTime\<close> cleared (and \<open>updatedAt\<close> set to the time of the call), and the persisted
  queue is the old queue with that one operation replaced, every other operation unmodified;
  when storage refuses the write, the persisted queue stays as it was.
\<close>

theorem retryOperation_frame:
  "(\<not> (\<exists>operation \<in> set (queue st). op_id operation = i \<and> status operation = FAILED) \<longrightarrow>
      retryOperation env i st = (None, st))
   \<and> (fst (retryOperation env i st) \<noteq> None \<or> queue (snd (retryOperation env i st)) \<noteq> queue st \<longrightarrow>
      (\<exists>operation \<in> set (queue st). op_id operation = i \<and> status operation = FAILED))
   \<and> (k < length (queue st) \<and> op_id (queue st ! k) = i \<and> status (queue st ! k) = FAILED
        \<and> (\<forall>j<k. op_id (queue st ! j) \<noteq> i) \<longrightarrow>
      fst (retryOperation env i st)
        = Some ((queue st ! k)\<lparr>status := PENDING, retryCount := 0, nextRetryTime := None,
                                op_error := None, updatedAt := date_now env\<rparr>)
      \<and> queue (snd (retryOperation env i st))
        = (if storage_accepts env
                ((queue st)[k := (queue st ! k)\<lparr>status := PENDING, retryCount := 0,
                     nextRetryTime := None, op_error := None, updatedAt := date_now env\<rparr>])
           then (queue st)[k := (queue st ! k)\<lparr>status := PENDING, retryCount := 0,
                     nextRetryTime := None, op_error := None, updatedAt := date_now env\<rparr>]
           else queue st)
      \<and> length (queue (snd (retryOperation env i st))) = length (queue st)
      \<and> (\<forall>j < length (queue st). j \<noteq> k \<longrightarrow> queue (snd (retryOperation env i st)) ! j = queue st ! j))"
proof (intro conjI impI)
  assume "\<not> (\<exists>operation \<in> set (queue st). op_id operation = i \<and> status operation = FAILED)"
  then show "retryOperation env i st = (None, st)"
    by (rule retryOperation_null)
next
  assume h: "fst (retryOperation env i st) \<noteq> None \<or> queue (snd (retryOperation env i st)) \<noteq> queue st"
  show "\<exists>operation \<in> set (queue st). op_id operation = i \<and> status operation = FAILED"
  proof (rule ccontr)
    assume "\<not> ?thesis"
    then have "retryOperation env i st = (None, st)" by (rule retryOperation_null)
    then show False using h by simp
  qed
next
  assume h: "k < length (queue st) \<and> op_id (queue st ! k) = i \<and> status (queue st ! k) = FAILED
        \<and> (\<forall>j<k. op_id (queue st ! j) \<noteq> i)"
  have "findIndex (\<lambda>op. op_id op = i) (queue st) = Some k"
  proof (cases "findIndex (\<lambda>op. op_id op = i) (queue st)")
    case None
    then show ?thesis using h by (auto simp: findIndex_None)
  next
    case (Some k')
    have k': "k' < length (queue st) \<and> op_id (queue st ! k') = i \<and> (\<forall>j<k'. op_id (queue st ! j) \<noteq> i)"
      using findIndex_Some[OF Some] by simp
    have "\<not> k' < k" using h k' by blast
    moreover have "\<not> k < k'" using h k' by blast
    ultimately show ?thesis using Some by simp
  qed
  then have r: "fst (retryOperation env i st)
        = Some ((queue st ! k)\<lparr>status := PENDING, retryCount := 0, nextRetryTime := None,
                                op_error := None, updatedAt := date_now env\<rparr>)"
    and q: "queue (snd (retryOperation env i st))
        = (if storage_accepts env
                ((queue st)[k := (queue st ! k)\<lparr>status := PENDING, retryCount := 0,
                     nextRetryTime := None, op_error := None, updatedAt := date_now env\<rparr>])
           then (queue st)[k := (queue st ! k)\<lparr>status := PENDING, retryCount := 0,
                     nextRetryTime := None, op_error := None, updatedAt := date_now env\<rparr>]
           else queue st)"
    using retryOperation_reset[of i st k env] h by blast+
  show "fst (retryOperation env i st)
        = Some ((queue st ! k)\<lparr>status := PENDING, retryCount := 0, nextRetryTime := None,
                                op_error := None, updatedAt := date_now env\<rparr>)"
    by (rule r)
  show "queue (snd (retryOperation env i st))
        = (if storage_accepts env
                ((queue st)[k := (queue st ! k)\<lparr>status := PENDING, retryCount := 0,
                     nextRetryTime := None, op_error := None, updatedAt := date_now env\<rparr>])
           then (queue st)[k := (queue st ! k)\<lparr>status := PENDING, retryCount := 0,
                     nextRetryTime := None, op_error := None, updatedAt := date_now env\<rparr>]
           else queue st)"
    by (rule q)
  show "length (queue (snd (retryOperation env i st))) = length (queue st)"
    unfolding q by simp
  show "\<forall>j < length (queue st). j \<noteq> k \<longrightarrow> queue (snd (retryOperation env i st)) ! j = queue st ! j"
    unfolding q by simp
qed

theorem retryOperation_frame_witness:
  "retryOperation example_env ''op_1'' (idle_state [submit_operation, failed_operation])
     = (None, idle_state [submit_operation, failed_operation])
   \<and> retryOperation example_env ''op_9'' (idle_state [submit_operation, failed_operation])
     = (None, idle_state [submit_operation, failed_operation])
   \<and> fst (retryOperation example_env ''op_3'' (idle_state [submit_operation, failed_operation]))
     = Some (failed_operation\<lparr>status := PENDING, retryCount := 0, nextRetryTime := None,
                              op_error := None, updatedAt := 5000\<rparr>)
   \<and> queue (snd (retryOperation example_env ''op_3'' (idle_state [submit_operation, failed_operation])))
     = [submit_operation,
        failed_operation\<lparr>status := PENDING, retryCount := 0, nextRetryTime := None,
                         op_error := None, updatedAt := 5000\<rparr>]"
proof -
  let ?st = "idle_state [submit_operation, failed_operation]"
  have n1: "\<not> (\<exists>operation \<in> set (queue ?st). op_id operation = ''op_1'' \<and> status operation = FAILED)"
    by (simp add: idle_state_def submit_operation_def failed_operation_def)
  have n9: "\<not> (\<exists>operation \<in> set (queue ?st). op_id operation = ''op_9'' \<and> status operation = FAILED)"
    by (simp add: idle_state_def submit_operation_def failed_operation_def)
  have f3: "Suc 0 < length (queue ?st) \<and> op_id (queue ?st ! Suc 0) = ''op_3''
      \<and> status (queue ?st ! Suc 0) = FAILED \<and> (\<forall>j<Suc 0. op_id (queue ?st ! j) \<noteq> ''op_3'')"
    by (simp add: idle_state_def submit_operation_def failed_operation_def)
  have a: "retryOperation example_env ''op_1'' ?st = (None, ?st)"
    using retryOperation_frame[of ?st "''op_1''" example_env] n1 by blast
  have b: "retryOperation example_env ''op_9'' ?st = (None, ?st)"
    using retryOperation_frame[of ?st "''op_9''" example_env] n9 by blast
  note t = retryOperation_frame[of ?st "''op_3''" example_env "Suc 0"]
  have c: "fst (retryOperation example_env ''op_3'' ?st)
      = Some ((queue ?st ! Suc 0)\<lparr>status := PENDING, retryCount := 0, nextRetryTime := None,
                                op_error := None, updatedAt := date_now example_env\<rparr>)"
    using t f3 by blast
  have d: "queue (snd (retryOperation example_env ''op_3'' ?st))
      = (if storage_accepts example_env
                ((queue ?st)[Suc 0 := (queue ?st ! Suc 0)\<lparr>status := PENDING, retryCount := 0,
                     nextRetryTime := None, op_error := None, updatedAt := date_now example_env\<rparr>])
           then (queue ?st)[Suc 0 := (queue ?st ! Suc 0)\<lparr>status := PENDING, retryCount := 0,
                     nextRetryTime := None, op_error := None, updatedAt := date_now example_env\<rparr>]
           else queue ?st)"
    using t f3 by blast
  show ?thesis
    unfolding a b c d by (simp add: idle_state_def example_env_def)
qed


section \<open>The life cycle in the second copy of the service\<close>

lemma enqueueOperation_pending:
  "status (fst (enqueueOperation env newId type d m st)) = PENDING"
  "retryCount (fst (enqueueOperation env newId type d m st)) = 0"
  "nextRetryTime (fst (enqueueOperation env newId type d m st)) = None"
  "storage_accepts env (queue st @ [fst (enqueueOperation env newId type d m st)]) \<Longrightarrow>
   queue (snd (enqueueOperation env newId type d m st))
     = queue st @ [fst (enqueueOperation env newId type d m st)]"
  by (simp_all add: enqueueOperation_def Let_def getOperationQueue_def queue_saveOperationQueue)

lemma findIndex_list_update:
  assumes "findIndex P xs = Some k" "P y"
  shows "findIndex P (xs[k := y]) = Some k"
  using assms
proof (induction xs arbitrary: k)
  case Nil
  then show ?case by simp
next
  case (Cons x xs)
  show ?case
  proof (cases "P x")
    case True
    then show ?thesis using Cons.prems by simp
  next
    case False
    then obtain k' where k': "findIndex P xs = Some k'" "k = Suc k'"
      using Cons.prems by auto
    then show ?thesis using Cons.IH[OF k'(1) Cons.prems(2)] False by simp
  qed
qed

lemma op_id_spread [simp]: "op_id (spread operation u) = op_id operation"
  by (simp add: spread_def)

text \<open>
  Two writes in a row on the operation at position \<open>k\<close>, in a storage that takes every
  write: the second write's settings are applied to the result of the first.
\<close>

lemma updateOperation_accepted:
  assumes "findIndex (\<lambda>op. op_id op = i) (queue st) = Some k" "\<forall>q. storage_accepts env q"
  shows "queue (snd (updateOperation env i u st))
           = (queue st)[k := (spread (queue st ! k) u)\<lparr>updatedAt := date_now env\<rparr>]"
    and "findIndex (\<lambda>op. op_id op = i) (queue (snd (updateOperation env i u st))) = Some k"
proof -
  show q: "queue (snd (updateOperation env i u st))
           = (queue st)[k := (spread (queue st ! k) u)\<lparr>updatedAt := date_now env\<rparr>]"
    using updateOperation_found(2)[OF assms(1), of env u] assms(2) by simp
  have "op_id ((spread (queue st ! k) u)\<lparr>updatedAt := date_now env\<rparr>) = i"
    using findIndex_Some[OF assms(1)] by simp
  then show "findIndex (\<lambda>op. op_id op = i) (queue (snd (updateOperation env i u st))) = Some k"
    unfolding q using findIndex_list_update[OF assms(1)] by simp
qed

lemma queue_after_two_updates:
  assumes "findIndex (\<lambda>op. op_id op = i) (queue st) = Some k" "\<forall>q. storage_accepts env q"
  shows "queue (snd (updateOperation env i u2 (snd (updateOperation env i u1 st)))) ! k
           = (spread ((spread (queue st ! k) u1)\<lparr>updatedAt := date_now env\<rparr>) u2)
               \<lparr>updatedAt := date_now env\<rparr>"
proof -
  let ?st1 = "snd (updateOperation env i u1 st)"
  have k: "k < length (queue st)" using findIndex_Some[OF assms(1)] by simp
  have q1: "queue ?st1 = (queue st)[k := (spread (queue st ! k) u1)\<lparr>updatedAt := date_now env\<rparr>]"
    and f1: "findIndex (\<lambda>op. op_id op = i) (queue ?st1) = Some k"
    using updateOperation_accepted[OF assms] by blast+
  have "queue (snd (updateOperation env i u2 ?st1))
      = (queue ?st1)[k := (spread (queue ?st1 ! k) u2)\<lparr>updatedAt := date_now env\<rparr>]"
    using updateOperation_accepted(1)[OF f1 assms(2)] .
  then show ?thesis using k by (simp add: q1)
qed

text \<open>
  In the second copy the processed operation is given its outcome: completed after a
  successful dispatch; after a failed one, retry with the count raised by one and
  \<open>nextRetryTime\<close> set to the time of the call plus the backoff delay when
  \<open>retryCount < maxRetries\<close>, and failed otherwise. (The storage takes every write, and the
  operation is in the persisted queue.)
\<close>

lemma processOperation_copy_lifecycle:
  assumes "findIndex (\<lambda>op. op_id op = op_id operation) (queue st) = Some k"
    and "\<forall>q. storage_accepts env q"
  shows "dispatchOperation_copy env operation = None \<Longrightarrow>
           fst (processOperation_copy env operation st) = True
           \<and> status (queue (snd (processOperation_copy env operation st)) ! k) = COMPLETED"
    and "dispatchOperation_copy env operation = Some e \<Longrightarrow>
         retryCount operation < maxRetries operation \<Longrightarrow>
           fst (processOperation_copy env operation st) = False
           \<and> status (queue (snd (processOperation_copy env operation st)) ! k) = RETRY
           \<and> retryCount (queue (snd (processOperation_copy env operation st)) ! k)
               = retryCount operation + 1
           \<and> nextRetryTime (queue (snd (processOperation_copy env operation st)) ! k)
               = Some (real_of_int (date_now env)
                        + calculateBackoffDelay (math_random env) (retryCount operation))"
    and "dispatchOperation_copy env operation = Some e \<Longrightarrow>
         \<not> retryCount operation < maxRetries operation \<Longrightarrow>
           fst (processOperation_copy env operation st) = False
           \<and> status (queue (snd (processOperation_copy env operation st)) ! k) = FAILED"
proof -
  note two = queue_after_two_updates[OF assms]
  show "dispatchOperation_copy env operation = None \<Longrightarrow>
           fst (processOperation_copy env operation st) = True
           \<and> status (queue (snd (processOperation_copy env operation st)) ! k) = COMPLETED"
    by (simp add: processOperation_copy_def Let_def two spread_def)
  show "dispatchOperation_copy env operation = Some e \<Longrightarrow>
         retryCount operation < maxRetries operation \<Longrightarrow>
           fst (processOperation_copy env operation st) = False
           \<and> status (queue (snd (processOperation_copy env operation st)) ! k) = RETRY
           \<and> retryCount (queue (snd (processOperation_copy env operation st)) ! k)
               = retryCount operation + 1
           \<and> nextRetryTime (queue (snd (processOperation_copy env operation st)) ! k)
               = Some (real_of_int (date_now env)
                        + calculateBackoffDelay (math_random env) (retryCount operation))"
    by (simp add: processOperation_copy_def Let_def two spread_def)
  show "dispatchOperation_copy env operation = Some e \<Longrightarrow>
         \<not> retryCount operation < maxRetries operation \<Longrightarrow>
           fst (processOperation_copy env operation st) = False
           \<and> status (queue (snd (processOperation_copy env operation st)) ! k) = FAILED"
    by (simp add: processOperation_copy_def Let_def two spread_def)
qed

text \<open>
  In \<open>productService.ts\<close> the processed operation is in progress when \<open>processOperation\<close>
  returns, whatever the dispatch gave.
\<close>

lemma processOperation_leaves_in_progress:
  assumes "findIndex (\<lambda>op. op_id op = op_id operation) (queue st) = Some k"
    and "\<forall>q. storage_accepts env q"
  shows "status (queue (snd (processOperation env operation st)) ! k) = IN_PROGRESS"
proof -
  have k: "k < length (queue st)" using findIndex_Some[OF assms(1)] by simp
  have "queue (snd (processOperation env operation st))
      = queue (snd (updateOperation env (op_id operation)
                     \<lparr>set_status = Some IN_PROGRESS, set_retryCount = None,
                      set_nextRetryTime = None, set_error = None\<rparr> st))"
    by (simp add: processOperation_def Let_def split: sum.split)
  then show ?thesis
    using updateOperation_accepted(1)[OF assms] k by (simp add: spread_def)
qed


section \<open>What the queue processor records\<close>

lemmas queue_eval =
  processOperation_def dispatchOperation_def remote_dispatch_def recordScan_def
  updateOperation_def getOperationQueue_def saveOperationQueue_def notifyQueueEventListeners_def
  spread_def getCurrentUserId_def truthy_def isNetworkAvailable_def
  example_env_def failing_env_def idle_state_def submit_operation_def scan_operation_def
  no_data_def Let_def

text \<open>
  \<open>processOperation\<close> of \<open>productService.ts\<close> writes to the queue once, when it marks the
  operation in progress; whatever the dispatch gives, the queue stays as that write left it.
\<close>

lemma processOperation_queue:
  "queue (snd (processOperation env operation st))
     = queue (snd (updateOperation env (op_id operation)
                     \<lparr>set_status = Some IN_PROGRESS, set_retryCount = None,
                      set_nextRetryTime = None, set_error = None\<rparr> st))"
  by (simp add: processOperation_def Let_def split: sum.split)

lemma processOperation_on_authentication_error:
  "dispatchOperation env operation = Inl e \<Longrightarrow> kind e = AuthenticationError \<Longrightarrow>
   fst (processOperation env operation st) = (retryCount operation < 1)"
  by (simp add: processOperation_def Let_def)

lemma dispatch_unresolved_user:
  assumes "op_type operation = RECORD_SCAN"
    and "\<not> truthy (userId (op_data operation)) \<or> userId (op_data operation) = Some ''pending-auth''"
    and "\<not> truthy (currentUserId env)"
  shows "dispatchOperation env operation = Inl (Throw AuthenticationError ''User not authenticated'')"
  using assms by (auto simp: dispatchOperation_def getCurrentUserId_def Let_def truthy_def)

text \<open>
  Claim C2 says that a processed operation becomes completed on a successful dispatch, and
  retry (with a \<open>nextRetryTime\<close>) or failed on a failed one. In \<open>productService.ts\<close> a pending
  product submission whose remote call succeeds is left in progress, and so is one whose
  remote call fails with a network error, with \<open>retryCount\<close> 0 and no \<open>nextRetryTime\<close>; an
  operation in progress is not selected by any later pass.
\<close>

theorem processOperation_outcome_not_recorded:
  "fst (processOperation example_env submit_operation (idle_state [submit_operation])) = True
   \<and> queue (snd (processOperation example_env submit_operation (idle_state [submit_operation])))
       = [submit_operation\<lparr>status := IN_PROGRESS, updatedAt := 5000\<rparr>]
   \<and> fst (processOperation failing_env submit_operation (idle_state [submit_operation])) = False
   \<and> queue (snd (processOperation failing_env submit_operation (idle_state [submit_operation])))
       = [submit_operation\<lparr>status := IN_PROGRESS, updatedAt := 5000\<rparr>]
   \<and> status (submit_operation\<lparr>status := IN_PROGRESS, updatedAt := 5000\<rparr>) \<noteq> COMPLETED
   \<and> status (submit_operation\<lparr>status := IN_PROGRESS, updatedAt := 5000\<rparr>) \<noteq> RETRY
   \<and> nextRetryTime (submit_operation\<lparr>status := IN_PROGRESS, updatedAt := 5000\<rparr>) = None
   \<and> filter (ready 9999999) [submit_operation\<lparr>status := IN_PROGRESS, updatedAt := 5000\<rparr>] = []"
  by (simp add: queue_eval ready_def)

theorem processOperation_outcome_not_recorded_witness:
  "status (hd (queue (snd (processOperation example_env submit_operation
                             (idle_state [submit_operation]))))) = IN_PROGRESS
   \<and> status (hd (queue (snd (processOperation failing_env submit_operation
                             (idle_state [submit_operation]))))) = IN_PROGRESS"
  using processOperation_outcome_not_recorded by simp

text \<open>
  Claim C4 says that a record-scan operation whose user cannot be resolved fails with an
  authentication error that is retried exactly once and then fails for good. In
  \<open>productService.ts\<close> the dispatch of such an operation throws the authentication error, and
  \<open>processOperation\<close> returns \<open>true\<close>: the pass counts the operation as processed, leaves it
  in progress with \<open>retryCount\<close> 0 and no error, and a second pass finds nothing to do, so
  the operation is neither retried nor failed. In the second copy of the service the error
  is treated like any other: after its first retry the operation is scheduled for a second.
\<close>

theorem processOperation_authentication_not_retried:
  "dispatchOperation example_env scan_operation
     = Inl (Throw AuthenticationError ''User not authenticated'')
   \<and> fst (processOperation example_env scan_operation (idle_state [scan_operation])) = True
   \<and> queue (snd (processOperation example_env scan_operation (idle_state [scan_operation])))
       = [scan_operation\<lparr>status := IN_PROGRESS, updatedAt := 5000\<rparr>]
   \<and> fst (processOperationQueue False example_env (idle_state [scan_operation])) = 1
   \<and> queue (snd (processOperationQueue False example_env (idle_state [scan_operation])))
       = [scan_operation\<lparr>status := IN_PROGRESS, updatedAt := 5000\<rparr>]
   \<and> fst (processOperationQueue False example_env
             (snd (processOperationQueue False example_env (idle_state [scan_operation])))) = 0
   \<and> queue (snd (processOperationQueue False example_env
             (snd (processOperationQueue False example_env (idle_state [scan_operation])))))
       = [scan_operation\<lparr>status := IN_PROGRESS, updatedAt := 5000\<rparr>]
   \<and> status (hd (queue (snd (processOperation_copy example_env (scan_operation\<lparr>retryCount := 1\<rparr>)
                                  (idle_state [scan_operation\<lparr>retryCount := 1\<rparr>]))))) = RETRY
   \<and> retryCount (hd (queue (snd (processOperation_copy example_env (scan_operation\<lparr>retryCount := 1\<rparr>)
                                  (idle_state [scan_operation\<lparr>retryCount := 1\<rparr>]))))) = 2"
proof -
  have d: "dispatchOperation example_env scan_operation
     = Inl (Throw AuthenticationError ''User not authenticated'')"
    by (simp add: queue_eval)
  have p: "processOperation example_env scan_operation (idle_state [scan_operation])
     = (True, \<lparr>queue = [scan_operation\<lparr>status := IN_PROGRESS, updatedAt := 5000\<rparr>],
               queueProcessorRunning = False, queueProcessorTimeout = None,
               notified = [(''operationUpdated'', ''op_2'')]\<rparr>)"
    unfolding processOperation_def d by (simp add: queue_eval)
  have p': "processOperation example_env scan_operation
              \<lparr>queue = [scan_operation], queueProcessorRunning = True, queueProcessorTimeout = None,
               notified = [(''queueProcessingStarted'', ''queue-processing'')]\<rparr>
     = (True, \<lparr>queue = [scan_operation\<lparr>status := IN_PROGRESS, updatedAt := 5000\<rparr>],
               queueProcessorRunning = True, queueProcessorTimeout = None,
               notified = [(''queueProcessingStarted'', ''queue-processing''),
                           (''operationUpdated'', ''op_2'')]\<rparr>)"
    unfolding processOperation_def d by (simp add: queue_eval)
  have r: "ready 5000 scan_operation"
    by (simp add: ready_def scan_operation_def)
  have e: "date_now example_env = 5000" "navigator_onLine example_env"
    "onLine_during example_env 0"
    by (simp_all add: example_env_def)
  have first: "processOperationQueue False example_env (idle_state [scan_operation])
     = (1, \<lparr>queue = [scan_operation\<lparr>status := IN_PROGRESS, updatedAt := 5000\<rparr>],
            queueProcessorRunning = False, queueProcessorTimeout = None,
            notified = [(''queueProcessingStarted'', ''queue-processing''),
                        (''operationUpdated'', ''op_2''),
                        (''queueProcessingCompleted'', ''queue-processing'')]\<rparr>)"
    by (simp add: processOperationQueue_def processOperationQueue_enter_def
          processOperationQueue_pass_def schedule_retry_def getOperationQueue_def
          notifyQueueEventListeners_def isNetworkAvailable_def idle_state_def e r p' Let_def)
  have second: "processOperationQueue False example_env
        \<lparr>queue = [scan_operation\<lparr>status := IN_PROGRESS, updatedAt := 5000\<rparr>],
         queueProcessorRunning = False, queueProcessorTimeout = None,
         notified = [(''queueProcessingStarted'', ''queue-processing''),
                     (''operationUpdated'', ''op_2''),
                     (''queueProcessingCompleted'', ''queue-processing'')]\<rparr>
     = (0, \<lparr>queue = [scan_operation\<lparr>status := IN_PROGRESS, updatedAt := 5000\<rparr>],
            queueProcessorRunning = False, queueProcessorTimeout = None,
            notified = [(''queueProcessingStarted'', ''queue-processing''),
                        (''operationUpdated'', ''op_2''),
                        (''queueProcessingCompleted'', ''queue-processing''),
                        (''queueProcessingStarted'', ''queue-processing''),
                        (''queueProcessingCompleted'', ''queue-processing'')]\<rparr>)"
    by (simp add: processOperationQueue_def processOperationQueue_enter_def
          processOperationQueue_pass_def schedule_retry_def getOperationQueue_def
          notifyQueueEventListeners_def isNetworkAvailable_def ready_def e Let_def)
  have copy: "queue (snd (processOperation_copy example_env (scan_operation\<lparr>retryCount := 1\<rparr>)
                                  (idle_state [scan_operation\<lparr>retryCount := 1\<rparr>])))
     = [scan_operation\<lparr>status := RETRY, retryCount := 2,
           nextRetryTime := Some (5000 + calculateBackoffDelay (1 / 2) 1),
           op_error := Some ''User must be authenticated to process scan operation'',
           updatedAt := 5000\<rparr>]"
    by (simp add: processOperation_copy_def dispatchOperation_copy_def queue_eval)
  have again: "status (hd (queue (snd (processOperation_copy example_env (scan_operation\<lparr>retryCount := 1\<rparr>)
                                  (idle_state [scan_operation\<lparr>retryCount := 1\<rparr>]))))) = RETRY
   \<and> retryCount (hd (queue (snd (processOperation_copy example_env (scan_operation\<lparr>retryCount := 1\<rparr>)
                                  (idle_state [scan_operation\<lparr>retryCount := 1\<rparr>]))))) = 2"
    unfolding copy by simp
  show ?thesis
    using again by (simp add: first second p d)
qed

theorem processOperation_authentication_not_retried_witness:
  "fst (processOperation example_env scan_operation (idle_state [scan_operation]))
   \<and> status (hd (queue (snd (processOperation example_env scan_operation
                               (idle_state [scan_operation]))))) = IN_PROGRESS"
  using processOperation_authentication_not_retried by simp


section \<open>Order of the tiers in the barcode lookup\<close>

lemma api_tier_hit:
  "fetchProductFromAPI env bc = Inr (Some apiProduct) \<Longrightarrow>
   api_tier env bc st
     = (Some ((mapApiResponseToProduct apiProduct bc)\<lparr>pid := generated_uuid env\<rparr>, ''api''),
        st\<lparr>tier_log := tier_log st @ [ApiQuery, DatabaseSave]\<rparr>)"
  by (simp add: api_tier_def log_event_def Let_def)

lemma api_tier_miss:
  "\<forall>apiProduct. fetchProductFromAPI env bc \<noteq> Inr (Some apiProduct) \<Longrightarrow>
   api_tier env bc st = (None, st\<lparr>tier_log := tier_log st @ [ApiQuery]\<rparr>)"
  by (simp add: api_tier_def log_event_def Let_def split: sum.split option.split)

lemma api_tier_log:
  "prefix (tier_log st @ [ApiQuery]) (tier_log (snd (api_tier env bc st)))"
  by (simp add: api_tier_def log_event_def Let_def split: sum.split option.split)

lemma cache_tier_log:
  "tier_log (snd (cache_tier J env bc st)) = tier_log st @ [CacheQuery]"
  by (simp add: cache_tier_def log_event_def Let_def split: prod.split option.split)

lemma database_tier_log:
  "tier_log (snd (database_tier J env bc st)) = tier_log st @ [DatabaseQuery]"
  by (simp add: database_tier_def log_event_def Let_def split: prod.split option.split sum.split)

lemma tier_log_enqueue_stored [simp]:
  "tier_log (snd (enqueue_stored J Q env newId type d m st)) = tier_log st"
  by (simp add: enqueue_stored_def Let_def split: prod.split)

lemma recordScanWithOfflineSupport_log:
  "tier_log (snd (recordScanWithOfflineSupport J Q env p u st))
     = tier_log st @ (if navigator_onLine (base env) then recordScan_calls (base env) u else [])"
proof -
  have e: "tier_log (snd (enqueue_stored J Q b i t d m s)) = tier_log s" for b i t d m s
    by simp
  obtain operation s' where o: "enqueue_stored J Q (base env) (generated_operation_id env) RECORD_SCAN
      \<lparr>productId = Some p, userId = u, source = Some FromApi, has_process = False\<rparr> None
      (if navigator_onLine (base env)
       then st\<lparr>tier_log := tier_log st @ recordScan_calls (base env) u\<rparr> else st) = (operation, s')"
    by (cases "enqueue_stored J Q (base env) (generated_operation_id env) RECORD_SCAN
      \<lparr>productId = Some p, userId = u, source = Some FromApi, has_process = False\<rparr> None
      (if navigator_onLine (base env)
       then st\<lparr>tier_log := tier_log st @ recordScan_calls (base env) u\<rparr> else st)")
  have s': "tier_log s'
      = tier_log st @ (if navigator_onLine (base env) then recordScan_calls (base env) u else [])"
    using e[of "base env" "generated_operation_id env" RECORD_SCAN
            "\<lparr>productId = Some p, userId = u, source = Some FromApi, has_process = False\<rparr>" None
            "if navigator_onLine (base env)
             then st\<lparr>tier_log := tier_log st @ recordScan_calls (base env) u\<rparr> else st"]
    unfolding o by simp
  show ?thesis
    unfolding recordScanWithOfflineSupport_def isNetworkAvailable_def Let_def o
    using s' by (simp split: option.split sum.split)
qed

lemma recordScanWithOfflineSupport_offline:
  assumes "\<not> navigator_onLine (base env)"
  shows "fst (fst (recordScanWithOfflineSupport J Q env p u st)) = None"
    and "storage (snd (recordScanWithOfflineSupport J Q env p u st))
          = snd (write_queue J Q
                   (stored_queue Q (storage st)
                    @ [\<lparr>op_id = generated_operation_id env, op_type = RECORD_SCAN,
                        op_data = \<lparr>productId = Some p, userId = u, source = Some FromApi,
                                   has_process = False\<rparr>,
                        status = PENDING, retryCount = 0, maxRetries = DEFAULT_MAX_RETRIES,
                        nextRetryTime = None, op_error = None,
                        createdAt = date_now (base env), updatedAt = date_now (base env)\<rparr>])
                   (storage st))"
  using assms
  by (simp_all add: recordScanWithOfflineSupport_def isNetworkAvailable_def enqueue_stored_def
        enqueueOperation_def Let_def split: prod.split)

lemma processBarcodeScan_stages:
  "processBarcodeScan J Q env bc u st =
     (let r1 = (if navigator_onLine (base env) then api_tier env bc st else (None, st));
          r2 = (if fst r1 = None then cache_tier J env bc (snd r1) else r1);
          r3 = (if fst r2 = None \<and> navigator_onLine (base env)
                then database_tier J env bc (snd r2) else r2)
      in case fst r3 of
           None \<Rightarrow>
             (Inl (new_ProductNotFoundError (''Product with barcode '' @ bc @ '' not found'')), snd r3)
         | Some ps \<Rightarrow>
             (let s4 = (if snd ps = ''database'' \<or> snd ps = ''api''
                        then (snd r3)\<lparr>storage := saveToCache J (date_now (base env)) (fst ps)
                                                    (storage (snd r3))\<rparr>
                        else snd r3);
                  r5 = recordScanWithOfflineSupport J Q env (pid (fst ps)) u s4
              in (Inr \<lparr>found_product = fst ps, found_scan = fst (fst r5), found_source = snd ps\<rparr>,
                  snd r5)))"
  unfolding processBarcodeScan_def isNetworkAvailable_def Let_def case_prod_beta prod.collapse
  by (rule refl)

text \<open>From the cache tier on, the lookup only adds to the log.\<close>

lemma processBarcodeScan_log:
  assumes r1_def: "r1 = (if navigator_onLine (base env) then api_tier env bc st else (None, st))"
    and r2_def: "r2 = (if fst r1 = None then cache_tier J env bc (snd r1) else r1)"
  shows "prefix (tier_log (snd r2)) (tier_log (snd (processBarcodeScan J Q env bc u st)))"
proof -
  define r3 where "r3 = (if fst r2 = None \<and> navigator_onLine (base env)
                then database_tier J env bc (snd r2) else r2)"
  have p23: "prefix (tier_log (snd r2)) (tier_log (snd r3))"
    unfolding r3_def by (simp add: database_tier_log)
  have "prefix (tier_log (snd r2)) (tier_log (snd (processBarcodeScan J Q env bc u st)))"
  proof (cases "fst r3")
    case None
    then have "snd (processBarcodeScan J Q env bc u st) = snd r3"
      unfolding processBarcodeScan_stages Let_def r1_def[symmetric] r2_def[symmetric] r3_def[symmetric]
      by simp
    then show ?thesis using p23 by simp
  next
    case (Some ps)
    define s4 where "s4 = (if snd ps = ''database'' \<or> snd ps = ''api''
                        then (snd r3)\<lparr>storage := saveToCache J (date_now (base env)) (fst ps)
                                                    (storage (snd r3))\<rparr>
                        else snd r3)"
    have "snd (processBarcodeScan J Q env bc u st)
        = snd (recordScanWithOfflineSupport J Q env (pid (fst ps)) u s4)"
      unfolding processBarcodeScan_stages Let_def r1_def[symmetric] r2_def[symmetric] r3_def[symmetric]
        s4_def
      using Some by simp
    moreover have "prefix (tier_log s4)
        (tier_log (snd (recordScanWithOfflineSupport J Q env (pid (fst ps)) u s4)))"
      by (simp add: recordScanWithOfflineSupport_log)
    moreover have "tier_log s4 = tier_log (snd r3)"
      unfolding s4_def by simp
    ultimately have "prefix (tier_log (snd r3)) (tier_log (snd (processBarcodeScan J Q env bc u st)))"
      by simp
    then show ?thesis
      using p23 by (rule prefix_order.trans[rotated])
  qed
  then show ?thesis .
qed

lemma processBarcodeScan_online_first:
  assumes "navigator_onLine (base env)"
  shows "prefix (tier_log st @ [ApiQuery]) (tier_log (snd (processBarcodeScan J Q env bc u st)))"
proof -
  let ?r1 = "api_tier env bc st"
  let ?r2 = "if fst ?r1 = None then cache_tier J env bc (snd ?r1) else ?r1"
  have "prefix (tier_log (snd ?r1)) (tier_log (snd ?r2))"
    by (simp add: cache_tier_log)
  then have "prefix (tier_log st @ [ApiQuery]) (tier_log (snd ?r2))"
    using api_tier_log[of st env bc] by (rule prefix_order.trans[rotated])
  moreover have "prefix (tier_log (snd ?r2)) (tier_log (snd (processBarcodeScan J Q env bc u st)))"
    by (rule processBarcodeScan_log[of ?r1]) (simp_all add: assms)
  ultimately show ?thesis by (rule prefix_order.trans)
qed

lemma processBarcodeScan_api_hit:
  assumes on: "navigator_onLine (base env)"
    and hit: "fetchProductFromAPI env bc = Inr (Some apiProduct)"
  shows "\<exists>r. fst (processBarcodeScan J Q env bc u st) = Inr r \<and> found_source r = ''api''
          \<and> found_product r = (mapApiResponseToProduct apiProduct bc)\<lparr>pid := generated_uuid env\<rparr>"
    and "tier_log (snd (processBarcodeScan J Q env bc u st))
          = tier_log st @ [ApiQuery, DatabaseSave] @ recordScan_calls (base env) u"
proof -
  let ?p = "(mapApiResponseToProduct apiProduct bc)\<lparr>pid := generated_uuid env\<rparr>"
  let ?s1 = "st\<lparr>tier_log := tier_log st @ [ApiQuery, DatabaseSave]\<rparr>"
  let ?s4 = "?s1\<lparr>storage := saveToCache J (date_now (base env)) ?p (storage ?s1)\<rparr>"
  let ?r5 = "recordScanWithOfflineSupport J Q env (pid ?p) u ?s4"
  have r: "processBarcodeScan J Q env bc u st
      = (Inr \<lparr>found_product = ?p, found_scan = fst (fst ?r5), found_source = ''api''\<rparr>, snd ?r5)"
    unfolding processBarcodeScan_stages Let_def
    using on by (simp add: api_tier_hit[OF hit])
  show "\<exists>r. fst (processBarcodeScan J Q env bc u st) = Inr r \<and> found_source r = ''api''
          \<and> found_product r = ?p"
    unfolding r by simp
  have "tier_log (snd ?r5) = tier_log ?s4 @ recordScan_calls (base env) u"
    using on by (simp add: recordScanWithOfflineSupport_log)
  then show "tier_log (snd (processBarcodeScan J Q env bc u st))
          = tier_log st @ [ApiQuery, DatabaseSave] @ recordScan_calls (base env) u"
    unfolding r by simp
qed

lemma processBarcodeScan_api_miss:
  assumes on: "navigator_onLine (base env)"
    and miss: "\<forall>apiProduct. fetchProductFromAPI env bc \<noteq> Inr (Some apiProduct)"
  shows "prefix (tier_log st @ [ApiQuery, CacheQuery])
           (tier_log (snd (processBarcodeScan J Q env bc u st)))"
proof -
  let ?s1 = "st\<lparr>tier_log := tier_log st @ [ApiQuery]\<rparr>"
  have a: "api_tier env bc st = (None, ?s1)"
    using api_tier_miss[OF miss] .
  have "prefix (tier_log (snd (cache_tier J env bc ?s1)))
          (tier_log (snd (processBarcodeScan J Q env bc u st)))"
    by (rule processBarcodeScan_log[of "(None, ?s1)"]) (simp_all add: on a)
  then show ?thesis by (simp add: cache_tier_log)
qed

lemma processBarcodeScan_offline_cached:
  assumes off: "\<not> navigator_onLine (base env)"
    and entry: "getItem (storage st) (CACHE_KEY_PREFIX @ bc) = Some d" "d \<noteq> []"
      "parseCached J d = Some c"
    and fresh: "date_now (base env) - timestamp c < CACHE_EXPIRY_MS"
  shows "fst (processBarcodeScan J Q env bc u st)
           = Inr \<lparr>found_product = cached_product c, found_scan = None, found_source = ''cache''\<rparr>"
    and "tier_log (snd (processBarcodeScan J Q env bc u st)) = tier_log st @ [CacheQuery]"
    and "storage (snd (processBarcodeScan J Q env bc u st))
           = snd (write_queue J Q
                   (stored_queue Q (storage st)
                    @ [\<lparr>op_id = generated_operation_id env, op_type = RECORD_SCAN,
                        op_data = \<lparr>productId = Some (pid (cached_product c)), userId = u,
                                   source = Some FromApi, has_process = False\<rparr>,
                        status = PENDING, retryCount = 0, maxRetries = DEFAULT_MAX_RETRIES,
                        nextRetryTime = None, op_error = None,
                        createdAt = date_now (base env), updatedAt = date_now (base env)\<rparr>])
                   (storage st))"
proof -
  have hit: "getFromCache J (date_now (base env)) bc (storage st) = (Some (cached_product c), storage st)"
    using getFromCache_fresh[OF entry, of "date_now (base env)"] fresh by simp
  let ?s = "(log_event CacheQuery st)\<lparr>storage := storage st\<rparr>"
  have ct: "cache_tier J env bc st = (Some (cached_product c, ''cache''), ?s)"
    by (simp add: cache_tier_def Let_def log_event_def hit)
  let ?r5 = "recordScanWithOfflineSupport J Q env (pid (cached_product c)) u ?s"
  have r: "processBarcodeScan J Q env bc u st
      = (Inr \<lparr>found_product = cached_product c, found_scan = fst (fst ?r5),
              found_source = ''cache''\<rparr>, snd ?r5)"
    unfolding processBarcodeScan_stages Let_def
    using off by (simp add: ct)
  note o = recordScanWithOfflineSupport_offline[OF off, of J Q "pid (cached_product c)" u ?s]
  show "fst (processBarcodeScan J Q env bc u st)
           = Inr \<lparr>found_product = cached_product c, found_scan = None, found_source = ''cache''\<rparr>"
    using o(1) by (simp add: r)
  show "tier_log (snd (processBarcodeScan J Q env bc u st)) = tier_log st @ [CacheQuery]"
    using off by (simp add: r recordScanWithOfflineSupport_log log_event_def)
  show "storage (snd (processBarcodeScan J Q env bc u st))
           = snd (write_queue J Q
                   (stored_queue Q (storage st)
                    @ [\<lparr>op_id = generated_operation_id env, op_type = RECORD_SCAN,
                        op_data = \<lparr>productId = Some (pid (cached_product c)), userId = u,
                                   source = Some FromApi, has_process = False\<rparr>,
                        status = PENDING, retryCount = 0, maxRetries = DEFAULT_MAX_RETRIES,
                        nextRetryTime = None, op_error = None,
                        createdAt = date_now (base env), updatedAt = date_now (base env)\<rparr>])
                   (storage st))"
    using o(2) by (simp add: r)
qed

text \<open>
  Claim C1. In every barcode lookup, when the network is available the external API is the
  first tier queried: the first event that the lookup adds to the log is the API query,
  before any query of the cache or of the remote database. When the API has the product,
  the lookup returns it (mapped, with the generated id) with source "api"; it reads neither
  the cache nor the database for the barcode: after the API query it starts the background
  save to the database and records the scan. When the API has not the product (not found,
  or an error), the cache is queried next. When the network is unavailable and the cache
  holds an entry fresher than 24 hours, the lookup returns that entry's product with source
  "cache"; the only event it logs is the cache query, so no network call (API, database,
  user or scan insert) is made; no scan record is returned: the scan is queued, and the
  storage at the return is what \<open>Storage.setItem\<close> leaves of the storage before when it writes
  the stored queue with the new pending \<open>RECORD_SCAN\<close> operation at its end.
\<close>

theorem processBarcodeScan_tiers:
  "(navigator_onLine (base env) \<longrightarrow>
      prefix (tier_log st @ [ApiQuery]) (tier_log (snd (processBarcodeScan J Q env bc u st))))
   \<and> (navigator_onLine (base env) \<and> fetchProductFromAPI env bc = Inr (Some apiProduct) \<longrightarrow>
      (\<exists>r. fst (processBarcodeScan J Q env bc u st) = Inr r \<and> found_source r = ''api''
          \<and> found_product r = (mapApiResponseToProduct apiProduct bc)\<lparr>pid := generated_uuid env\<rparr>)
      \<and> tier_log (snd (processBarcodeScan J Q env bc u st))
          = tier_log st @ [ApiQuery, DatabaseSave] @ recordScan_calls (base env) u)
   \<and> (navigator_onLine (base env)
       \<and> (\<forall>found. fetchProductFromAPI env bc \<noteq> Inr (Some found)) \<longrightarrow>
      prefix (tier_log st @ [ApiQuery, CacheQuery])
        (tier_log (snd (processBarcodeScan J Q env bc u st))))
   \<and> (\<not> navigator_onLine (base env)
       \<and> getItem (storage st) (CACHE_KEY_PREFIX @ bc) = Some d \<and> d \<noteq> []
       \<and> parseCached J d = Some c
       \<and> date_now (base env) - timestamp c < CACHE_EXPIRY_MS \<longrightarrow>
      fst (processBarcodeScan J Q env bc u st)
        = Inr \<lparr>found_product = cached_product c, found_scan = None, found_source = ''cache''\<rparr>
      \<and> tier_log (snd (processBarcodeScan J Q env bc u st)) = tier_log st @ [CacheQuery]
      \<and> \<not> list_ex is_network_call
            (drop (length (tier_log st)) (tier_log (snd (processBarcodeScan J Q env bc u st))))
      \<and> storage (snd (processBarcodeScan J Q env bc u st))
           = snd (write_queue J Q
                   (stored_queue Q (storage st)
                    @ [\<lparr>op_id = generated_operation_id env, op_type = RECORD_SCAN,
                        op_data = \<lparr>productId = Some (pid (cached_product c)), userId = u,
                                   source = Some FromApi, has_process = False\<rparr>,
                        status = PENDING, retryCount = 0, maxRetries = DEFAULT_MAX_RETRIES,
                        nextRetryTime = None, op_error = None,
                        createdAt = date_now (base env), updatedAt = date_now (base env)\<rparr>])
                   (storage st)))"
proof (intro conjI impI)
  assume "navigator_onLine (base env)"
  then show "prefix (tier_log st @ [ApiQuery]) (tier_log (snd (processBarcodeScan J Q env bc u st)))"
    by (rule processBarcodeScan_online_first)
next
  assume h: "navigator_onLine (base env) \<and> fetchProductFromAPI env bc = Inr (Some apiProduct)"
  note t = processBarcodeScan_api_hit[where env=env and bc=bc and apiProduct=apiProduct and J=J and Q=Q and u=u and st=st]
  show "\<exists>r. fst (processBarcodeScan J Q env bc u st) = Inr r \<and> found_source r = ''api''
          \<and> found_product r = (mapApiResponseToProduct apiProduct bc)\<lparr>pid := generated_uuid env\<rparr>"
    using t(1) h by blast
  show "tier_log (snd (processBarcodeScan J Q env bc u st))
          = tier_log st @ [ApiQuery, DatabaseSave] @ recordScan_calls (base env) u"
    using t(2) h by blast
next
  assume "navigator_onLine (base env) \<and> (\<forall>found. fetchProductFromAPI env bc \<noteq> Inr (Some found))"
  then show "prefix (tier_log st @ [ApiQuery, CacheQuery])
        (tier_log (snd (processBarcodeScan J Q env bc u st)))"
    using processBarcodeScan_api_miss[where env=env and bc=bc and J=J and Q=Q and u=u and st=st] by blast
next
  assume h: "\<not> navigator_onLine (base env)
       \<and> getItem (storage st) (CACHE_KEY_PREFIX @ bc) = Some d \<and> d \<noteq> []
       \<and> parseCached J d = Some c
       \<and> date_now (base env) - timestamp c < CACHE_EXPIRY_MS"
  note t = processBarcodeScan_offline_cached[where env=env and st=st and bc=bc and d=d and J=J and c=c and Q=Q and u=u]
  show "fst (processBarcodeScan J Q env bc u st)
        = Inr \<lparr>found_product = cached_product c, found_scan = None, found_source = ''cache''\<rparr>"
    using t(1) h by blast
  show l: "tier_log (snd (processBarcodeScan J Q env bc u st)) = tier_log st @ [CacheQuery]"
    using t(2) h by blast
  show "\<not> list_ex is_network_call
            (drop (length (tier_log st)) (tier_log (snd (processBarcodeScan J Q env bc u st))))"
    unfolding l by simp
  show "storage (snd (processBarcodeScan J Q env bc u st))
           = snd (write_queue J Q
                   (stored_queue Q (storage st)
                    @ [\<lparr>op_id = generated_operation_id env, op_type = RECORD_SCAN,
                        op_data = \<lparr>productId = Some (pid (cached_product c)), userId = u,
                                   source = Some FromApi, has_process = False\<rparr>,
                        status = PENDING, retryCount = 0, maxRetries = DEFAULT_MAX_RETRIES,
                        nextRetryTime = None, op_error = None,
                        createdAt = date_now (base env), updatedAt = date_now (base env)\<rparr>])
                   (storage st))"
    using t(3) h by blast
qed

text \<open>
  Scenario A: online, with the product present upstream with nutriscore "A" and nova group
  1, the API answers with the product, and the lookup returns it with score 100 and source
  "api" after the API query, the start of the background save and the scan insert; the
  cache, which holds the product, is not queried. Scenario B: offline, with the entry
  cached 5 seconds before, the lookup returns the cached product with source "cache", logs
  the cache query alone, and adds the queue entry to the storage.
\<close>

theorem processBarcodeScan_tiers_witness:
  "navigator_onLine (base online_lookup)
   \<and> fetchProductFromAPI online_lookup ''3017620422003''
       = Inr (Some \<lparr>code = ''3017620422003'', api_status = ''success'',
                    product = \<lparr>product_name = Some ''Nutella'', brands = Some ''Ferrero'',
                               nutriscore_grade = Some ''A'', nova_group = Some 1,
                               labels_tags = None\<rparr>,
                    result_id = Some ''product_found''\<rparr>)
   \<and> (\<exists>r. fst (processBarcodeScan example_codec example_queue_codec online_lookup ''3017620422003''
                  (Some ''user-1'') example_app) = Inr r
          \<and> found_source r = ''api''
          \<and> found_product r
              = \<lparr>pid = ''uuid-1'', barcode = ''3017620422003'', name = ''Nutella'',
                 brand = ''Ferrero'', safety_score = 100\<rparr>)
   \<and> tier_log (snd (processBarcodeScan example_codec example_queue_codec online_lookup
                      ''3017620422003'' (Some ''user-1'') example_app))
       = [ApiQuery, DatabaseSave, ScanInsert]
   \<and> \<not> navigator_onLine (base offline_lookup)
   \<and> getItem (storage example_app) (CACHE_KEY_PREFIX @ ''3017620422003'') = Some ''entry@0''
   \<and> parseCached example_codec ''entry@0'' = Some \<lparr>cached_product = example_product, timestamp = 0\<rparr>
   \<and> fst (processBarcodeScan example_codec example_queue_codec offline_lookup ''3017620422003''
            (Some ''user-1'') example_app)
       = Inr \<lparr>found_product = example_product, found_scan = None, found_source = ''cache''\<rparr>
   \<and> tier_log (snd (processBarcodeScan example_codec example_queue_codec offline_lookup
                      ''3017620422003'' (Some ''user-1'') example_app)) = [CacheQuery]
   \<and> storage (snd (processBarcodeScan example_codec example_queue_codec offline_lookup
                     ''3017620422003'' (Some ''user-1'') example_app))
       = \<lparr>backend = LocalStorage,
          entries = [(''scani_product_3017620422003'', ''entry@0''),
                     (''scani_operation_queue'', ''[...]'')]\<rparr>"
proof -
  let ?api = "\<lparr>code = ''3017620422003'', api_status = ''success'',
                product = \<lparr>product_name = Some ''Nutella'', brands = Some ''Ferrero'',
                           nutriscore_grade = Some ''A'', nova_group = Some 1,
                           labels_tags = None\<rparr>,
                result_id = Some ''product_found''\<rparr>"
  let ?c = "\<lparr>cached_product = example_product, timestamp = 0\<rparr>"
  let ?on = "processBarcodeScan example_codec example_queue_codec online_lookup ''3017620422003''
               (Some ''user-1'') example_app"
  let ?off = "processBarcodeScan example_codec example_queue_codec offline_lookup ''3017620422003''
               (Some ''user-1'') example_app"
  have on: "navigator_onLine (base online_lookup)"
    by (simp add: online_lookup_def example_env_def)
  have off: "\<not> navigator_onLine (base offline_lookup)"
    by (simp add: offline_lookup_def example_env_def)
  have fetch: "fetchProductFromAPI online_lookup ''3017620422003'' = Inr (Some ?api)"
    by (simp add: fetchProductFromAPI_def isNetworkAvailable_def online_lookup_def example_env_def)
  have score: "calculateHealthScore ?api = 100"
    by (simp add: calculateHealthScore_def nutriscore_switch_def nova_switch_def toUpperCase_def
          toUpperChar_def Let_def)
  have mapped: "(mapApiResponseToProduct ?api ''3017620422003'')\<lparr>pid := generated_uuid online_lookup\<rparr>
      = \<lparr>pid = ''uuid-1'', barcode = ''3017620422003'', name = ''Nutella'', brand = ''Ferrero'',
         safety_score = 100\<rparr>"
    unfolding mapApiResponseToProduct_def score
    by (simp add: truthy_def online_lookup_def)
  have calls: "recordScan_calls (base online_lookup) (Some ''user-1'') = [ScanInsert]"
    by (simp add: recordScan_calls_def truthy_def)
  have l: "tier_log example_app = []"
    by (simp add: example_app_def)
  have g: "getItem (storage example_app) (CACHE_KEY_PREFIX @ ''3017620422003'') = Some ''entry@0''"
    by (simp add: example_app_def example_storage_def CACHE_KEY_PREFIX_def getItem_def)
  have n: "''entry@0'' \<noteq> []" by simp
  have c: "parseCached example_codec ''entry@0'' = Some ?c"
    by (simp add: example_codec_def)
  have f: "date_now (base offline_lookup) - timestamp ?c < CACHE_EXPIRY_MS"
    by (simp add: offline_lookup_def example_env_def CACHE_EXPIRY_MS_def)
  note t1 = processBarcodeScan_tiers[where env=online_lookup and st=example_app and J=example_codec
              and Q=example_queue_codec and bc="''3017620422003''" and u="Some ''user-1''"
              and apiProduct="?api"]
  have a1: "\<exists>r. fst ?on = Inr r \<and> found_source r = ''api''
      \<and> found_product r
          = (mapApiResponseToProduct ?api ''3017620422003'')\<lparr>pid := generated_uuid online_lookup\<rparr>"
    using t1 on fetch by blast
  have a2: "tier_log (snd ?on)
      = tier_log example_app @ [ApiQuery, DatabaseSave]
        @ recordScan_calls (base online_lookup) (Some ''user-1'')"
    using t1 on fetch by blast
  note t2 = processBarcodeScan_tiers[where env=offline_lookup and st=example_app and J=example_codec
              and Q=example_queue_codec and bc="''3017620422003''" and u="Some ''user-1''"
              and d="''entry@0''" and c="?c"]
  have b1: "fst ?off
      = Inr \<lparr>found_product = cached_product ?c, found_scan = None, found_source = ''cache''\<rparr>"
    using t2 off g n c f by blast
  have b2: "tier_log (snd ?off) = tier_log example_app @ [CacheQuery]"
    using t2 off g n c f by blast
  have b3: "storage (snd ?off)
      = snd (write_queue example_codec example_queue_codec
               (stored_queue example_queue_codec (storage example_app)
                @ [\<lparr>op_id = generated_operation_id offline_lookup, op_type = RECORD_SCAN,
                    op_data = \<lparr>productId = Some (pid (cached_product ?c)), userId = Some ''user-1'',
                               source = Some FromApi, has_process = False\<rparr>,
                    status = PENDING, retryCount = 0, maxRetries = DEFAULT_MAX_RETRIES,
                    nextRetryTime = None, op_error = None,
                    createdAt = date_now (base offline_lookup),
                    updatedAt = date_now (base offline_lookup)\<rparr>])
               (storage example_app))"
    using t2 off g n c f by blast
  have w: "snd (write_queue example_codec example_queue_codec
               (stored_queue example_queue_codec (storage example_app)
                @ [\<lparr>op_id = generated_operation_id offline_lookup, op_type = RECORD_SCAN,
                    op_data = \<lparr>productId = Some (pid (cached_product ?c)), userId = Some ''user-1'',
                               source = Some FromApi, has_process = False\<rparr>,
                    status = PENDING, retryCount = 0, maxRetries = DEFAULT_MAX_RETRIES,
                    nextRetryTime = None, op_error = None,
                    createdAt = date_now (base offline_lookup),
                    updatedAt = date_now (base offline_lookup)\<rparr>])
               (storage example_app))
      = \<lparr>backend = LocalStorage,
         entries = [(''scani_product_3017620422003'', ''entry@0''),
                    (''scani_operation_queue'', ''[...]'')]\<rparr>"
    by (simp add: write_queue_def stored_queue_def setItem_def QUEUE_STORAGE_KEY_def
          example_queue_codec_def example_app_def example_storage_def storage_eval)
  show ?thesis
    using on off fetch g c a1 a2 b1 b2 b3
    unfolding mapped calls l w by simp
qed



end
